theory Spec2Isabelle
  imports Complex_Main
begin

section \<open>Python values and exceptions\<close>

text \<open>
  The exceptions the modelled code can raise. Every constructor stands for a subclass of
  Python's \<open>Exception\<close>; a \<open>CollaboratorError\<close> is whatever an external collaborator (the
  HTTP router, the database driver) raised.
\<close>

datatype error =
    ValueError string
  | AttributeError string
  | TypeError string
  | OverflowError
  | InvalidOperation
  | DivisionByZero
  | DecimalOverflow
  | IndexError
  | KeyError string
  | CollaboratorError string

text \<open>
  A raw platform record is decoded JSON: \<open>Dict[str, Any]\<close>. Dictionaries are association
  lists (the first binding of a key is the one a lookup sees). A float is given by the
  text \<open>str()\<close> prints for it (\<open>PFloat ''99.99''\<close>), which is all the modelled code reads
  of a float besides its truth value. Text is ASCII.
\<close>

datatype pyval =
    PNone
  | PBool bool
  | PInt int
  | PFloat string
  | PStr string
  | PList "pyval list"
  | PDict "(string \<times> pyval) list"

section \<open>Credentials: \<open>mcp_servers/fastmcp/token_manager.py\<close>\<close>

text \<open>
  A \<open>datetime\<close> is the count of microseconds of its wall-clock fields since
  0001-01-01T00:00:00 together with the UTC offset of its \<open>tzinfo\<close> (\<open>None\<close> for a naive
  value). Python's datetimes cover the years 1 to 9999; arithmetic that leaves this range
  raises \<open>OverflowError\<close>.
\<close>

record datetime =
  micros :: int
  tzoffset :: "int option"

definition max_micros :: int where
  "max_micros = 3652059 * 86400 * 1000000 - 1"

definition unix_epoch_micros :: int where
  "unix_epoch_micros = 719162 * 86400 * 1000000"

definition valid_datetime :: "datetime \<Rightarrow> bool" where
  "valid_datetime d =
     (0 \<le> micros d \<and> micros d \<le> max_micros \<and>
      (case tzoffset d of None \<Rightarrow> True
       | Some off \<Rightarrow> - (86400 * 1000000) < off \<and> off < 86400 * 1000000))"

text \<open>The instant a timezone-aware datetime denotes, in microseconds of UTC.\<close>

definition utc_micros :: "datetime \<Rightarrow> int" where
  "utc_micros d = micros d - (case tzoffset d of None \<Rightarrow> 0 | Some off \<Rightarrow> off)"

text \<open>\<open>d - timedelta(seconds=n)\<close>: the wall-clock fields move, the \<open>tzinfo\<close> stays.\<close>

definition dt_sub_seconds :: "datetime \<Rightarrow> int \<Rightarrow> error + datetime" where
  "dt_sub_seconds d n =
     (let m = micros d - n * 1000000
      in if 0 \<le> m \<and> m \<le> max_micros then Inr (d\<lparr>micros := m\<rparr>) else Inl OverflowError)"

record token_data =
  access_token :: string
  refresh_token :: "string option"
  expires_at :: "datetime option"
  platform_user_id :: "string option"
  scopes :: "string list option"
  token_metadata :: "(string \<times> pyval) list option"

text \<open>
  \<open>TokenData.is_expired(buffer_seconds)\<close>. The first argument is the reading of
  \<open>datetime.now(timezone.utc)\<close>, in microseconds of UTC since 0001-01-01.
\<close>

definition is_expired :: "int \<Rightarrow> token_data \<Rightarrow> int \<Rightarrow> error + bool" where
  "is_expired now self buffer_seconds =
     (case expires_at self of
        None \<Rightarrow> Inr False
      | Some e \<Rightarrow>
          (let e' = (if tzoffset e = None then e\<lparr>tzoffset := Some 0\<rparr> else e)
           in case dt_sub_seconds e' buffer_seconds of
                Inl err \<Rightarrow> Inl err
              | Inr limit \<Rightarrow> Inr (utc_micros limit \<le> now)))"

text \<open>The default of the parameter: \<open>buffer_seconds: int = 300\<close>.\<close>

definition default_buffer_seconds :: int where
  "default_buffer_seconds = 300"

text \<open>\<open>d + timedelta(seconds=n)\<close>.\<close>

definition dt_add_seconds :: "datetime \<Rightarrow> int \<Rightarrow> error + datetime" where
  "dt_add_seconds d n =
     (let m = micros d + n * 1000000
      in if 0 \<le> m \<and> m \<le> max_micros then Inr (d\<lparr>micros := m\<rparr>) else Inl OverflowError)"

text \<open>\<open>str.upper()\<close> and \<open>str.lower()\<close> on ASCII text.\<close>

definition py_upper :: "string \<Rightarrow> string" where
  "py_upper s =
     map (\<lambda>c. let n = (of_char c :: nat) in if 97 \<le> n \<and> n \<le> 122 then char_of (n - 32) else c) s"

definition py_lower :: "string \<Rightarrow> string" where
  "py_lower s =
     map (\<lambda>c. let n = (of_char c :: nat) in if 65 \<le> n \<and> n \<le> 90 then char_of (n + 32) else c) s"

text \<open>Truthiness of an \<open>Optional[str]\<close>: \<open>None\<close> and the empty string are falsy.\<close>

definition truthy_opt_str :: "string option \<Rightarrow> bool" where
  "truthy_opt_str v = (case v of None \<Rightarrow> False | Some s \<Rightarrow> s \<noteq> [])"

subsection \<open>The collaborators of the token manager\<close>

text \<open>
  What \<open>TokenManager._get_db\<close> meets when it has no database handle yet:
  \<open>get_database()\<close> and \<open>connect()\<close> succeed, \<open>get_database()\<close> (or its import) raises, or
  \<open>get_database()\<close> returns a handle whose \<open>connect()\<close> raises.
\<close>

datatype connect_result = ConnectOK | GetDatabaseFailed | ConnectFailed

text \<open>The row \<open>fetchrow\<close> selects from the \<open>tokens\<close> table.\<close>

record token_row =
  access_token_encrypted :: string
  refresh_token_encrypted :: "string option"
  row_expires_at :: "datetime option"
  row_scopes :: "string list option"
  row_platform_user_id :: "string option"

text \<open>
  The decoded body of the OAuth token endpoint's answer, as the three keys
  \<open>_refresh_token\<close> reads: \<open>access_token\<close>, \<open>refresh_token\<close> (absent, or present with a
  string or null) and \<open>expires_in\<close>.
\<close>

record token_response =
  resp_access_token :: "string option"
  resp_refresh_token :: "string option option"
  resp_expires_in :: "int option"

record http_response =
  status_code :: int
  json :: "error + token_response"

text \<open>
  Everything outside the token manager that \<open>get_token\<close> depends on: the database driver,
  \<open>uuid.UUID\<close>, the process environment, the HTTP client and the three readings of the
  clock (at the cache check, at the check of the loaded credential, inside the refresh).
\<close>

record tm_env =
  connect :: connect_result
  fetchval_user :: "string \<Rightarrow> error + string option"
  uuid_UUID :: "string \<Rightarrow> error + string"
  fetchrow_token :: "string \<Rightarrow> string \<Rightarrow> error + token_row option"
  environ :: "string \<Rightarrow> string option"
  http_get_meta :: "string \<Rightarrow> string \<Rightarrow> string option \<Rightarrow> error + http_response"
  http_post_google :: "string \<Rightarrow> string \<Rightarrow> string option \<Rightarrow> error + http_response"
  now_cache_check :: int
  now_load_check :: int
  now_refresh :: int

text \<open>The token manager's own state: \<open>self._cache\<close> and whether \<open>self._db\<close> is set.\<close>

record tm_state =
  cache :: "string \<rightharpoonup> (string \<rightharpoonup> token_data)"
  has_db :: bool

text \<open>\<open>TokenManager._get_db\<close>: the flag says whether a handle (not \<open>None\<close>) is returned.\<close>

definition get_db :: "tm_env \<Rightarrow> tm_state \<Rightarrow> bool \<times> tm_state" where
  "get_db env st =
     (if has_db st then (True, st)
      else case connect env of
             ConnectOK \<Rightarrow> (True, st\<lparr>has_db := True\<rparr>)
           | GetDatabaseFailed \<Rightarrow> (False, st)
           | ConnectFailed \<Rightarrow> (False, st\<lparr>has_db := True\<rparr>))"

text \<open>
  \<open>TokenManager._get_user_uuid\<close>: every exception is caught and turned into \<open>None\<close>, and
  the answer of the database is passed on only if it is truthy
  (\<open>return str(result) if result else None\<close>).
\<close>

definition get_user_uuid :: "tm_env \<Rightarrow> tm_state \<Rightarrow> string \<Rightarrow> string option \<times> tm_state" where
  "get_user_uuid env st user_id =
     (case get_db env st of
        (False, st') \<Rightarrow> (None, st')
      | (True, st') \<Rightarrow>
          (case fetchval_user env user_id of
             Inl e \<Rightarrow> (None, st')
           | Inr result \<Rightarrow> (if truthy_opt_str result then result else None, st')))"

text \<open>\<open>self._cache.get(user_id, {}).get(platform)\<close>.\<close>

definition cache_get :: "tm_state \<Rightarrow> string \<Rightarrow> string \<Rightarrow> token_data option" where
  "cache_get st user_id platform =
     (case cache st user_id of None \<Rightarrow> None | Some m \<Rightarrow> m platform)"

text \<open>
  \<open>if user_id not in self._cache: self._cache[user_id] = {}\<close> followed by
  \<open>self._cache[user_id][platform] = token_data\<close>.
\<close>

definition cache_put :: "tm_state \<Rightarrow> string \<Rightarrow> string \<Rightarrow> token_data \<Rightarrow> tm_state" where
  "cache_put st user_id platform token =
     st\<lparr>cache := (cache st)(user_id \<mapsto>
           (case cache st user_id of None \<Rightarrow> Map.empty | Some m \<Rightarrow> m)(platform \<mapsto> token))\<rparr>"

text \<open>\<open>os.environ.get(name, "")\<close>.\<close>

definition environ_get :: "tm_env \<Rightarrow> string \<Rightarrow> string" where
  "environ_get env name = (case environ env name of None \<Rightarrow> [] | Some v \<Rightarrow> v)"

text \<open>
  \<open>TokenManager._refresh_token\<close>. \<open>Inr None\<close> is the source's \<open>return None\<close>; an exception of
  the HTTP client, of \<open>response.json()\<close> or of the date arithmetic is \<open>Inl\<close>.
\<close>

definition refresh_token_call ::
  "tm_env \<Rightarrow> string \<Rightarrow> token_data \<Rightarrow> error + token_data option" where
  "refresh_token_call env platform token =
     (if platform = ''shopify'' then Inr None
      else
        let prefix = py_upper platform;
            client_id = environ_get env (prefix @ ''_CLIENT_ID'');
            client_secret = environ_get env (prefix @ ''_CLIENT_SECRET'')
        in if client_id = [] \<or> client_secret = [] then Inr None
           else
             case (if platform = ''meta''
                   then map_sum id Some (http_get_meta env client_id client_secret (refresh_token token))
                   else if platform = ''google''
                   then map_sum id Some (http_post_google env client_id client_secret (refresh_token token))
                   else Inr None) of
               Inl e \<Rightarrow> Inl e
             | Inr None \<Rightarrow> Inr None
             | Inr (Some response) \<Rightarrow>
                 if status_code response \<noteq> 200 then Inr None
                 else
                   case json response of
                     Inl e \<Rightarrow> Inl e
                   | Inr data \<Rightarrow>
                       (case dt_add_seconds \<lparr>micros = now_refresh env, tzoffset = Some 0\<rparr>
                               (case resp_expires_in data of None \<Rightarrow> 3600 | Some n \<Rightarrow> n) of
                          Inl e \<Rightarrow> Inl e
                        | Inr expiry \<Rightarrow>
                            Inr (Some
                              \<lparr>access_token =
                                 (case resp_access_token data of None \<Rightarrow> [] | Some a \<Rightarrow> a),
                               refresh_token =
                                 (case resp_refresh_token data of
                                    None \<Rightarrow> refresh_token token | Some r \<Rightarrow> r),
                               expires_at = Some expiry,
                               platform_user_id = platform_user_id token,
                               scopes = scopes token,
                               token_metadata = token_metadata token\<rparr>)))"

text \<open>The \<open>TokenData\<close> that \<open>get_token\<close> builds from a row; \<open>metadata\<close> keeps its default.\<close>

definition token_of_row :: "token_row \<Rightarrow> token_data" where
  "token_of_row row =
     \<lparr>access_token = access_token_encrypted row,
      refresh_token = refresh_token_encrypted row,
      expires_at = row_expires_at row,
      platform_user_id = row_platform_user_id row,
      scopes = row_scopes row,
      token_metadata = None\<rparr>"

text \<open>
  \<open>TokenManager.get_token\<close>. The result is \<open>None\<close> when the call never returns, and
  otherwise the returned value (or the exception that leaves the call) with the new state.
  The call holds \<open>self._lock\<close> from its first statement. \<open>store_token\<close> starts by acquiring
  the same \<open>asyncio.Lock\<close>, which is not reentrant, so the branch that reaches
  \<open>await self.store_token(...)\<close> waits for a lock its own task holds.
  \<open>if not user_uuid: return None\<close> covers both \<open>None\<close> and the empty string.
\<close>

definition get_token ::
  "tm_env \<Rightarrow> tm_state \<Rightarrow> string \<Rightarrow> string \<Rightarrow> bool \<Rightarrow>
     ((error + token_data option) \<times> tm_state) option" where
  "get_token env st user_id platform auto_refresh =
     (case (case cache_get st user_id platform of
              None \<Rightarrow> Inr None
            | Some cached \<Rightarrow>
                (case is_expired (now_cache_check env) cached default_buffer_seconds of
                   Inl e \<Rightarrow> Inl e
                 | Inr expired \<Rightarrow> Inr (if expired then None else Some cached))) of
        Inl e \<Rightarrow> Some (Inl e, st)
      | Inr (Some cached) \<Rightarrow> Some (Inr (Some cached), st)
      | Inr None \<Rightarrow>
          (case get_db env st of
             (False, st1) \<Rightarrow> Some (Inr (cache_get st1 user_id platform), st1)
           | (True, st1) \<Rightarrow>
               (case get_user_uuid env st1 user_id of
                  (None, st2) \<Rightarrow> Some (Inr None, st2)
                | (Some user_uuid, st2) \<Rightarrow>
                    if user_uuid = [] then Some (Inr None, st2)
                    else
                    (case uuid_UUID env user_uuid of
                       Inl e \<Rightarrow> Some (Inr (cache_get st2 user_id platform), st2)
                     | Inr u \<Rightarrow>
                         (case fetchrow_token env u platform of
                            Inl e \<Rightarrow> Some (Inr (cache_get st2 user_id platform), st2)
                          | Inr None \<Rightarrow> Some (Inr None, st2)
                          | Inr (Some row) \<Rightarrow>
                              (let token = token_of_row row;
                                   st3 = cache_put st2 user_id platform token
                               in if \<not> auto_refresh then Some (Inr (Some token), st3)
                                  else
                                    case is_expired (now_load_check env) token
                                           default_buffer_seconds of
                                      Inl e \<Rightarrow> Some (Inr (cache_get st3 user_id platform), st3)
                                    | Inr expired \<Rightarrow>
                                        if expired \<and> truthy_opt_str (refresh_token token) then
                                          (case refresh_token_call env platform token of
                                             Inl e \<Rightarrow> Some (Inr (Some token), st3)
                                           | Inr None \<Rightarrow> Some (Inr (Some token), st3)
                                           | Inr (Some refreshed) \<Rightarrow> None)
                                        else Some (Inr (Some token), st3)))))))"

text \<open>
  What durable storage holds for a user and platform, as \<open>get_token\<close> reads it: the
  database is reachable, the user has an internal id, and the \<open>tokens\<close> table has a row.
\<close>

definition stored_credential ::
  "tm_env \<Rightarrow> tm_state \<Rightarrow> string \<Rightarrow> string \<Rightarrow> token_data option" where
  "stored_credential env st user_id platform =
     (case get_db env st of
        (False, st1) \<Rightarrow> None
      | (True, st1) \<Rightarrow>
          (case get_user_uuid env st1 user_id of
             (None, st2) \<Rightarrow> None
           | (Some user_uuid, st2) \<Rightarrow>
               if user_uuid = [] then None
               else
               (case uuid_UUID env user_uuid of
                  Inl e \<Rightarrow> None
                | Inr u \<Rightarrow>
                    (case fetchrow_token env u platform of
                       Inl e \<Rightarrow> None
                     | Inr None \<Rightarrow> None
                     | Inr (Some row) \<Rightarrow> Some (token_of_row row)))))"

text \<open>The cache gives \<open>get_token\<close> no answer: no entry, or an entry that is expired.\<close>

definition cache_miss :: "tm_env \<Rightarrow> tm_state \<Rightarrow> string \<Rightarrow> string \<Rightarrow> bool" where
  "cache_miss env st user_id platform =
     (case cache_get st user_id platform of
        None \<Rightarrow> True
      | Some cached \<Rightarrow>
          is_expired (now_cache_check env) cached default_buffer_seconds = Inr True)"

section \<open>Python's \<open>Decimal\<close>\<close>

text \<open>
  A \<open>Decimal\<close> is a sign (\<open>True\<close> for negative), a coefficient and an exponent, or one of
  the special values: an infinity, or a NaN (\<open>DNaN True\<close> is the signaling one; the sign
  and payload of a NaN are not modelled). Arithmetic runs in the default context:
  precision 28, rounding \<open>ROUND_HALF_EVEN\<close>, \<open>Emax = 999999\<close>, \<open>Emin = -999999\<close>, with the
  traps \<open>InvalidOperation\<close>, \<open>DivisionByZero\<close> and \<open>Overflow\<close> enabled, so that these three
  signals raise and the others (\<open>Inexact\<close>, \<open>Rounded\<close>, \<open>Subnormal\<close>, \<open>Underflow\<close>,
  \<open>Clamped\<close>) only round.
\<close>

datatype decimal = Dec bool nat int | DInf bool | DNaN bool

definition prec :: nat where "prec = 28"
definition Emax :: int where "Emax = 999999"
definition Emin :: int where "Emin = - 999999"
definition Etiny :: int where "Etiny = Emin - int prec + 1"
definition Etop :: int where "Etop = Emax - int prec + 1"

text \<open>The number of decimal digits of a coefficient (\<open>len(self._int)\<close>; zero has one).\<close>

fun ndigits :: "nat \<Rightarrow> nat" where
  "ndigits n = (if n < 10 then 1 else Suc (ndigits (n div 10)))"


definition round_half_even :: "nat \<Rightarrow> nat \<Rightarrow> nat" where
  "round_half_even c k =
     (let q = c div 10 ^ k; r = c mod 10 ^ k
      in if 10 ^ k < 2 * r \<or> (2 * r = 10 ^ k \<and> odd q) then q + 1 else q)"

text \<open>
  \<open>Decimal._fix\<close>: rounds a finite result to the context. A zero keeps its sign and gets
  its exponent clamped; a value whose adjusted exponent exceeds \<open>Emax\<close> raises \<open>Overflow\<close>;
  a coefficient of more than 28 digits (or a subnormal one) is rounded half to even.
\<close>

definition dec_fix :: "bool \<Rightarrow> nat \<Rightarrow> int \<Rightarrow> error + decimal" where
  "dec_fix s c e =
     (if c = 0 then Inr (Dec s 0 (min (max e Etiny) Emax))
      else if Etop < int (ndigits c) + e - int prec then Inl DecimalOverflow
      else
        let exp_min = max (int (ndigits c) + e - int prec) Etiny
        in if e < exp_min then
             (let q = round_half_even c (nat (exp_min - e));
                  coeff = (if prec < ndigits q then q div 10 else q);
                  exp_min' = (if prec < ndigits q then exp_min + 1 else exp_min)
              in if Etop < exp_min' then Inl DecimalOverflow else Inr (Dec s coeff exp_min'))
           else Inr (Dec s c e))"


definition dec_sign :: "decimal \<Rightarrow> bool" where
  "dec_sign d = (case d of Dec s c e \<Rightarrow> s | DInf s \<Rightarrow> s | DNaN sg \<Rightarrow> False)"

text \<open>
  \<open>Decimal._check_nans\<close>: a signaling NaN operand raises, a quiet one is the result.
\<close>

definition check_nans :: "decimal \<Rightarrow> decimal \<Rightarrow> (error + decimal) option" where
  "check_nans a b =
     (if a = DNaN True \<or> b = DNaN True then Some (Inl InvalidOperation)
      else if a = DNaN False \<or> b = DNaN False then Some (Inr (DNaN False))
      else None)"




text \<open>The rational number a finite decimal denotes.\<close>

definition dec_val :: "decimal \<Rightarrow> rat" where
  "dec_val d =
     (case d of
        Dec s c e \<Rightarrow> (if s then - 1 else 1) * of_nat c * 10 powi e
      | _ \<Rightarrow> 0)"

definition is_finite :: "decimal \<Rightarrow> bool" where
  "is_finite d = (case d of Dec s c e \<Rightarrow> True | _ \<Rightarrow> False)"

definition dec_exponent :: "decimal \<Rightarrow> int" where
  "dec_exponent d = (case d of Dec s c e \<Rightarrow> e | _ \<Rightarrow> 0)"


section \<open>Currency conversion: \<open>normalization/currency.py\<close>\<close>




text \<open>
  \<open>repr\<close> of a list of strings, as the f-string prints \<open>list(self._rates.keys())\<close>. Each
  string is put between single quotes (exact for codes without quotes, backslashes or
  control characters).
\<close>

fun join_comma :: "string list \<Rightarrow> string" where
  "join_comma [] = []"
| "join_comma [x] = x"
| "join_comma (x # y # ys) = x @ '', '' @ join_comma (y # ys)"

definition repr_str_list :: "string list \<Rightarrow> string" where
  "repr_str_list xs = ''['' @ join_comma (map (\<lambda>x. [CHR 0x27] @ x @ [CHR 0x27]) xs) @ '']''"




section \<open>Python built-ins on raw values\<close>

text \<open>Truth value testing.\<close>

fun truthy :: "pyval \<Rightarrow> bool" where
  "truthy PNone = False"
| "truthy (PBool b) = b"
| "truthy (PInt n) = (n \<noteq> 0)"
| "truthy (PFloat s) = (s \<noteq> ''0.0'' \<and> s \<noteq> ''-0.0'')"
| "truthy (PStr s) = (s \<noteq> [])"
| "truthy (PList xs) = (xs \<noteq> [])"
| "truthy (PDict kvs) = (kvs \<noteq> [])"

text \<open>\<open>a or b\<close>.\<close>

definition py_or :: "pyval \<Rightarrow> pyval \<Rightarrow> pyval" where
  "py_or a b = (if truthy a then a else b)"

text \<open>\<open>d.get(k)\<close> and \<open>d.get(k, default)\<close> on a dictionary.\<close>

definition dict_get :: "(string \<times> pyval) list \<Rightarrow> string \<Rightarrow> pyval" where
  "dict_get d k = (case map_of d k of None \<Rightarrow> PNone | Some v \<Rightarrow> v)"

definition dict_get_default :: "(string \<times> pyval) list \<Rightarrow> string \<Rightarrow> pyval \<Rightarrow> pyval" where
  "dict_get_default d k dflt = (case map_of d k of None \<Rightarrow> dflt | Some v \<Rightarrow> v)"

text \<open>\<open>k in d\<close>.\<close>

definition dict_has :: "(string \<times> pyval) list \<Rightarrow> string \<Rightarrow> bool" where
  "dict_has d k = (map_of d k \<noteq> None)"

text \<open>
  \<open>v.get(k)\<close> and \<open>v.get(k, default)\<close> on any value: only a dictionary has the method.
\<close>

definition no_get :: error where
  "no_get = AttributeError ''object has no attribute get''"

definition py_get :: "pyval \<Rightarrow> string \<Rightarrow> error + pyval" where
  "py_get v k = (case v of PDict d \<Rightarrow> Inr (dict_get d k) | _ \<Rightarrow> Inl no_get)"

definition py_get_default :: "pyval \<Rightarrow> string \<Rightarrow> pyval \<Rightarrow> error + pyval" where
  "py_get_default v k dflt =
     (case v of PDict d \<Rightarrow> Inr (dict_get_default d k dflt) | _ \<Rightarrow> Inl no_get)"

text \<open>\<open>str(n)\<close> for an integer.\<close>

fun nat_digits :: "nat \<Rightarrow> string" where
  "nat_digits n =
     (if n < 10 then [char_of (48 + n)] else nat_digits (n div 10) @ [char_of (48 + n mod 10)])"

definition int_str :: "int \<Rightarrow> string" where
  "int_str i = (if i < 0 then ''-'' @ nat_digits (nat (- i)) else nat_digits (nat i))"

text \<open>
  \<open>repr(v)\<close> and \<open>str(v)\<close>. A string inside a list or dictionary is printed between single
  quotes (exact for text without quotes, backslashes or control characters).
\<close>

fun py_repr :: "pyval \<Rightarrow> string" where
  "py_repr PNone = ''None''"
| "py_repr (PBool b) = (if b then ''True'' else ''False'')"
| "py_repr (PInt n) = int_str n"
| "py_repr (PFloat s) = s"
| "py_repr (PStr s) = [CHR 0x27] @ s @ [CHR 0x27]"
| "py_repr (PList xs) = ''['' @ join_comma (map py_repr xs) @ '']''"
| "py_repr (PDict kvs) =
     ''{'' @ join_comma (map (\<lambda>kv. [CHR 0x27] @ fst kv @ [CHR 0x27] @ '': '' @ py_repr (snd kv)) kvs)
       @ ''}''"

definition py_str :: "pyval \<Rightarrow> string" where
  "py_str v = (case v of PStr s \<Rightarrow> s | _ \<Rightarrow> py_repr v)"

text \<open>\<open>len(v)\<close>.\<close>

definition py_len :: "pyval \<Rightarrow> error + nat" where
  "py_len v =
     (case v of
        PStr s \<Rightarrow> Inr (length s)
      | PList xs \<Rightarrow> Inr (length xs)
      | PDict kvs \<Rightarrow> Inr (length kvs)
      | _ \<Rightarrow> Inl (TypeError ''object has no len()''))"

text \<open>\<open>v[0]\<close>.\<close>

definition py_first :: "pyval \<Rightarrow> error + pyval" where
  "py_first v =
     (case v of
        PList xs \<Rightarrow> (case xs of [] \<Rightarrow> Inl IndexError | x # _ \<Rightarrow> Inr x)
      | PStr s \<Rightarrow> (case s of [] \<Rightarrow> Inl IndexError | c # _ \<Rightarrow> Inr (PStr [c]))
      | PDict kvs \<Rightarrow> Inl (KeyError ''0'')
      | _ \<Rightarrow> Inl (TypeError ''object is not subscriptable''))"

section \<open>More of \<open>Decimal\<close>: construction from text, comparison, \<open>abs\<close>, division\<close>

definition is_digit :: "char \<Rightarrow> bool" where
  "is_digit ch = (let n = (of_char ch :: nat) in 48 \<le> n \<and> n \<le> 57)"

definition digit_val :: "char \<Rightarrow> nat" where
  "digit_val ch = of_char ch - 48"

definition digits_val :: "string \<Rightarrow> nat" where
  "digits_val s = foldl (\<lambda>a ch. 10 * a + digit_val ch) 0 s"

text \<open>The characters \<open>str.strip()\<close> removes, among ASCII.\<close>

definition is_space :: "char \<Rightarrow> bool" where
  "is_space ch = (let n = (of_char ch :: nat) in (9 \<le> n \<and> n \<le> 13) \<or> (28 \<le> n \<and> n \<le> 32))"

definition py_strip :: "string \<Rightarrow> string" where
  "py_strip s = rev (dropWhile is_space (rev (dropWhile is_space s)))"

text \<open>
  The exponent part of a numeric string, after the \<open>E\<close>: an optional sign and at least one
  digit.
\<close>

definition parse_exponent :: "string \<Rightarrow> int option" where
  "parse_exponent s =
     (let neg = (s \<noteq> [] \<and> hd s = CHR ''-'');
          ds = (if s \<noteq> [] \<and> (hd s = CHR ''-'' \<or> hd s = CHR ''+'') then tl s else s)
      in if ds \<noteq> [] \<and> list_all is_digit ds
         then Some (if neg then - int (digits_val ds) else int (digits_val ds))
         else None)"

text \<open>
  \<open>Decimal(s)\<close> for a string: surrounding whitespace and all underscores are dropped; then
  an optional sign is followed by a number (digits with an optional point and an optional
  exponent, at least one digit), by \<open>Inf\<close> or \<open>Infinity\<close>, or by \<open>NaN\<close> or \<open>sNaN\<close> with
  optional digits, in any letter case. Anything else raises \<open>InvalidOperation\<close>. The
  exponent is unbounded, as in the \<open>_pydecimal\<close> implementation; the C implementation also
  rejects a number whose exponent lies beyond its internal limit of about \<open>10^18\<close>.
\<close>

definition parse_number :: "bool \<Rightarrow> string \<Rightarrow> decimal option" where
  "parse_number neg v =
     (let ip = takeWhile is_digit v;
          r1 = dropWhile is_digit v;
          fp = (if r1 \<noteq> [] \<and> hd r1 = CHR ''.'' then takeWhile is_digit (tl r1) else []);
          r2 = (if r1 \<noteq> [] \<and> hd r1 = CHR ''.'' then dropWhile is_digit (tl r1) else r1)
      in if ip = [] \<and> fp = [] then None
         else if r2 = [] then Some (Dec neg (digits_val (ip @ fp)) (- int (length fp)))
         else if hd r2 = CHR ''e'' then
           (case parse_exponent (tl r2) of
              None \<Rightarrow> None
            | Some ex \<Rightarrow> Some (Dec neg (digits_val (ip @ fp)) (ex - int (length fp))))
         else None)"

definition parse_decimal :: "string \<Rightarrow> decimal option" where
  "parse_decimal s =
     (let t = filter (\<lambda>ch. ch \<noteq> CHR ''_'') (py_strip s);
          neg = (t \<noteq> [] \<and> hd t = CHR ''-'');
          u = (if t \<noteq> [] \<and> (hd t = CHR ''-'' \<or> hd t = CHR ''+'') then tl t else t);
          v = py_lower u
      in if v = ''inf'' \<or> v = ''infinity'' then Some (DInf neg)
         else if take 3 v = ''nan'' \<and> list_all is_digit (drop 3 v) then Some (DNaN False)
         else if take 4 v = ''snan'' \<and> list_all is_digit (drop 4 v) then Some (DNaN True)
         else parse_number neg v)"

definition Decimal :: "string \<Rightarrow> error + decimal" where
  "Decimal s = (case parse_decimal s of None \<Rightarrow> Inl InvalidOperation | Some d \<Rightarrow> Inr d)"

text \<open>\<open>d < 0\<close>: an ordering comparison with a NaN raises.\<close>

definition dec_lt_zero :: "decimal \<Rightarrow> error + bool" where
  "dec_lt_zero d =
     (case d of
        Dec s c e \<Rightarrow> Inr (s \<and> c \<noteq> 0)
      | DInf s \<Rightarrow> Inr s
      | DNaN sg \<Rightarrow> Inl InvalidOperation)"

text \<open>\<open>abs(d)\<close>: the result is rounded to the context.\<close>

definition dec_abs :: "decimal \<Rightarrow> error + decimal" where
  "dec_abs d =
     (case d of
        Dec s c e \<Rightarrow> dec_fix False c e
      | DInf s \<Rightarrow> Inr (DInf False)
      | DNaN sg \<Rightarrow> if sg then Inl InvalidOperation else Inr (DNaN False))"

text \<open>\<open>bool(d)\<close>: only a zero is falsy.\<close>

definition dec_truthy :: "decimal \<Rightarrow> bool" where
  "dec_truthy d = (case d of Dec s c e \<Rightarrow> c \<noteq> 0 | _ \<Rightarrow> True)"

text \<open>
  The loop of \<open>Decimal.__truediv__\<close> that brings an exact quotient towards the ideal
  exponent by dropping trailing zeros.
\<close>

function strip_zeros :: "nat \<Rightarrow> int \<Rightarrow> int \<Rightarrow> nat \<times> int" where
  "strip_zeros coeff ex ideal_exp =
     (if ex < ideal_exp \<and> coeff mod 10 = 0 then strip_zeros (coeff div 10) (ex + 1) ideal_exp
      else (coeff, ex))"
  by pat_completeness auto
termination
  by (relation "measure (\<lambda>(coeff, ex, ideal_exp). nat (ideal_exp - ex))") auto

text \<open>\<open>Decimal.__truediv__\<close>.\<close>

definition dec_div :: "decimal \<Rightarrow> decimal \<Rightarrow> error + decimal" where
  "dec_div a b =
     (case check_nans a b of
        Some r \<Rightarrow> r
      | None \<Rightarrow>
          (case (a, b) of
             (DInf s1, DInf s2) \<Rightarrow> Inl InvalidOperation
           | (DInf s1, _) \<Rightarrow> Inr (DInf (s1 \<noteq> dec_sign b))
           | (Dec s1 c1 e1, DInf s2) \<Rightarrow> Inr (Dec (s1 \<noteq> s2) 0 Etiny)
           | (Dec s1 c1 e1, Dec s2 c2 e2) \<Rightarrow>
               if c2 = 0 then (if c1 = 0 then Inl InvalidOperation else Inl DivisionByZero)
               else if c1 = 0 then dec_fix (s1 \<noteq> s2) 0 (e1 - e2)
               else
                 let shift = int (ndigits c2) - int (ndigits c1) + int prec + 1;
                     ex = e1 - e2 - shift;
                     num = (if 0 \<le> shift then c1 * 10 ^ nat shift else c1);
                     den = (if 0 \<le> shift then c2 else c2 * 10 ^ nat (- shift));
                     coeff = num div den;
                     remainder = num mod den
                 in if remainder \<noteq> 0
                    then dec_fix (s1 \<noteq> s2) (if coeff mod 5 = 0 then coeff + 1 else coeff) ex
                    else (case strip_zeros coeff ex (e1 - e2) of
                            (coeff', ex') \<Rightarrow> dec_fix (s1 \<noteq> s2) coeff' ex')))"

section \<open>The transaction model: \<open>normalization/models.py\<close>\<close>

datatype transaction_type = ORDER | REFUND | AD_SPEND | EXPENSE | PAYOUT | INVENTORY_COST

text \<open>
  The \<open>timestamp\<close> a normalizer stores: a \<open>datetime\<close> it parsed or read from the clock, or,
  when the raw field holds a truthy value that is not a string, that value itself.
\<close>

datatype timestamp_value = Datetime datetime | RawValue pyval

record normalized_transaction =
  tx_id :: string
  platform :: string
  platform_id :: string
  tx_type :: transaction_type
  amount :: decimal
  currency :: string
  timestamp :: timestamp_value
  amount_usd :: "decimal option"
  sku_id :: pyval
  quantity :: pyval
  cost_per_unit :: "decimal option"
  campaign_id :: "string option"
  customer_id :: "string option"
  metadata :: "(string \<times> pyval) list"

text \<open>
  What a call of a normalizer takes from outside the record: the clock
  (\<open>datetime.now()\<close>), the random identifier (\<open>str(uuid.uuid4())\<close>) and the two parsers of
  the standard library, \<open>datetime.fromisoformat\<close> and \<open>datetime.strptime(_, "%Y-%m-%d")\<close>.
\<close>

record runtime =
  now :: datetime
  uuid4 :: string
  fromisoformat :: "string \<Rightarrow> error + datetime"
  strptime_ymd :: "string \<Rightarrow> error + datetime"

text \<open>
  \<open>NormalizedTransaction.__post_init__\<close> on the arguments a normalizer passes: the
  identifier is not empty, \<open>amount_usd\<close> is not given, and the amounts are \<open>Decimal\<close>s
  already. The \<open>currency\<close> argument is whatever the raw record holds; \<open>.upper()\<close> exists on
  strings only.
\<close>

definition post_init ::
  "string \<Rightarrow> string \<Rightarrow> string \<Rightarrow> transaction_type \<Rightarrow> decimal \<Rightarrow> pyval \<Rightarrow> timestamp_value \<Rightarrow>
   pyval \<Rightarrow> pyval \<Rightarrow> decimal option \<Rightarrow> string option \<Rightarrow> string option \<Rightarrow>
   (string \<times> pyval) list \<Rightarrow> error + normalized_transaction" where
  "post_init ident plat plat_id ty amt cur ts sku qty cpu camp cust meta =
     (case cur of
        PStr c \<Rightarrow>
          Inr \<lparr>tx_id = ident,
               platform = py_strip (py_lower plat),
               platform_id = plat_id,
               tx_type = ty,
               amount = amt,
               currency = c,
               timestamp = ts,
               amount_usd = (if py_upper c = ''USD'' then Some amt else None),
               sku_id = sku,
               quantity = qty,
               cost_per_unit = cpu,
               campaign_id = camp,
               customer_id = cust,
               metadata = meta\<rparr>
      | _ \<Rightarrow> Inl (AttributeError ''object has no attribute upper''))"

text \<open>A name between single quotes, as the messages of exceptions print it.\<close>

definition quoted :: "string \<Rightarrow> string" where
  "quoted name = [CHR 0x27] @ name @ [CHR 0x27]"

definition missing_field :: "string \<Rightarrow> error" where
  "missing_field field_name =
     ValueError (''Required field '' @ quoted field_name @ '' is missing or empty'')"

text \<open>
  \<open>NormalizedTransaction.validate\<close>. The fields \<open>type\<close> and \<open>amount\<close> always hold a value that
  is not a blank string, so the loop over the required fields can stop at \<open>id\<close>, \<open>platform\<close>,
  \<open>currency\<close> and \<open>timestamp\<close>. The last message ends with the member of the enumeration, whose
  rendering differs between Python versions and is left out.
\<close>

definition validate :: "normalized_transaction \<Rightarrow> error + bool" where
  "validate self =
     (if py_strip (tx_id self) = [] then Inl (missing_field ''id'')
      else if py_strip (platform self) = [] then Inl (missing_field ''platform'')
      else if py_strip (currency self) = [] then Inl (missing_field ''currency'')
      else if (case timestamp self of
                 RawValue PNone \<Rightarrow> True
               | RawValue (PStr s) \<Rightarrow> py_strip s = []
               | _ \<Rightarrow> False)
      then Inl (missing_field ''timestamp'')
      else if platform self \<notin> set [''shopify'', ''meta'', ''google'']
      then Inl (ValueError (''Invalid platform: '' @ platform self @ ''. Must be one of: '' @
                              repr_str_list [''shopify'', ''meta'', ''google'']))
      else if tx_type self \<noteq> REFUND then
        (case dec_lt_zero (amount self) of
           Inl e \<Rightarrow> Inl e
         | Inr neg \<Rightarrow>
             if neg then Inl (ValueError ''Amount must be non-negative for type'') else Inr True)
      else Inr True)"

section \<open>The platform normalizers: \<open>normalization/normalizer.py\<close>\<close>

text \<open>\<open>s.replace("Z", "+00:00")\<close>.\<close>

definition replace_Z :: "string \<Rightarrow> string" where
  "replace_Z s = concat (map (\<lambda>ch. if ch = CHR ''Z'' then ''+00:00'' else [ch]) s)"

text \<open>\<open>str(v) if v else None\<close>.\<close>

definition str_if_truthy :: "pyval \<Rightarrow> string option" where
  "str_if_truthy v = (if truthy v then Some (py_str v) else None)"

text \<open>
  The timestamp of the commerce adapter: a string is parsed as ISO 8601 after replacing
  \<open>Z\<close>; any other value is kept if truthy, and replaced by the clock otherwise.
\<close>

definition iso_timestamp :: "runtime \<Rightarrow> pyval \<Rightarrow> error + timestamp_value" where
  "iso_timestamp rt v =
     (case v of
        PStr s \<Rightarrow> map_sum id Datetime (fromisoformat rt (replace_Z s))
      | _ \<Rightarrow> Inr (if truthy v then RawValue v else Datetime (now rt)))"

text \<open>
  The timestamp of the two ad adapters: a string holding a \<open>T\<close> is parsed as ISO 8601,
  another string as \<open>%Y-%m-%d\<close>.
\<close>

definition date_timestamp :: "runtime \<Rightarrow> pyval \<Rightarrow> error + timestamp_value" where
  "date_timestamp rt v =
     (case v of
        PStr s \<Rightarrow>
          if CHR ''T'' \<in> set s then map_sum id Datetime (fromisoformat rt (replace_Z s))
          else map_sum id Datetime (strptime_ymd rt s)
      | _ \<Rightarrow> Inr (if truthy v then RawValue v else Datetime (now rt)))"

text \<open>
  The first line item of the commerce adapter: \<open>(sku_id, quantity, cost_per_unit)\<close>.
\<close>

definition first_line_item :: "pyval \<Rightarrow> error + (pyval \<times> pyval \<times> decimal option)" where
  "first_line_item line_items =
     (if \<not> truthy line_items then Inr (PNone, PNone, None)
      else
        case py_first line_items of
          Inl e \<Rightarrow> Inl e
        | Inr first_item \<Rightarrow>
            (case first_item of
               PDict item \<Rightarrow>
                 (let sku = py_or (dict_get item ''sku'') (dict_get item ''product_id'');
                      qty = dict_get item ''quantity''
                  in if dict_has item ''cost_per_item''
                     then (case Decimal (py_str (dict_get item ''cost_per_item'')) of
                             Inl e \<Rightarrow> Inl e
                           | Inr cpu \<Rightarrow> Inr (sku, qty, Some cpu))
                     else Inr (sku, qty, None))
             | _ \<Rightarrow> Inl no_get))"

text \<open>
  The first statements of \<open>ShopifyNormalizer.normalize\<close>: whether the record is a refund,
  the raw amount (\<open>total_price\<close>, else \<open>amount\<close>, else \<open>"0"\<close>), and
  \<open>if is_refund and amount < 0: amount = abs(amount)\<close>.
\<close>

definition shopify_is_refund :: "(string \<times> pyval) list \<Rightarrow> bool" where
  "shopify_is_refund data =
     (dict_get_default data ''financial_status'' (PStr ''paid'') = PStr ''refunded'' \<or>
      dict_get data ''kind'' = PStr ''refund'')"

definition shopify_amount_str :: "(string \<times> pyval) list \<Rightarrow> pyval" where
  "shopify_amount_str data =
     py_or (py_or (dict_get data ''total_price'') (dict_get data ''amount'')) (PStr ''0'')"

definition refund_magnitude :: "bool \<Rightarrow> decimal \<Rightarrow> error + decimal" where
  "refund_magnitude is_refund amount0 =
     (if is_refund
      then (case dec_lt_zero amount0 of
              Inl e \<Rightarrow> Inl e
            | Inr neg \<Rightarrow> if neg then dec_abs amount0 else Inr amount0)
      else Inr amount0)"

text \<open>\<open>ShopifyNormalizer.normalize\<close>.\<close>

definition shopify_normalize :: "runtime \<Rightarrow> pyval \<Rightarrow> error + normalized_transaction" where
  "shopify_normalize rt raw =
     (case raw of
        PDict data \<Rightarrow>
          (let financial_status = dict_get_default data ''financial_status'' (PStr ''paid'');
               is_refund = shopify_is_refund data;
               ty = (if is_refund then REFUND else ORDER)
           in case Decimal (py_str (shopify_amount_str data)) of
                Inl e \<Rightarrow> Inl e
              | Inr amount0 \<Rightarrow>
                 (case refund_magnitude is_refund amount0 of
                    Inl e \<Rightarrow> Inl e
                  | Inr amt \<Rightarrow>
                     (let line_items = dict_get_default data ''line_items'' (PList [])
                      in case first_line_item line_items of
                           Inl e \<Rightarrow> Inl e
                         | Inr (sku, qty, cpu) \<Rightarrow>
                            (case iso_timestamp rt
                                    (py_or (dict_get data ''created_at'')
                                           (dict_get data ''processed_at'')) of
                               Inl e \<Rightarrow> Inl e
                             | Inr ts \<Rightarrow>
                                (case py_get (dict_get_default data ''customer'' (PDict [])) ''id'' of
                                   Inl e \<Rightarrow> Inl e
                                 | Inr cust \<Rightarrow>
                                    (case py_len line_items of
                                       Inl e \<Rightarrow> Inl e
                                     | Inr n \<Rightarrow>
                                        post_init (uuid4 rt) ''shopify''
                                          (py_str (dict_get_default data ''id'' (PStr [])))
                                          ty amt
                                          (dict_get_default data ''currency'' (PStr ''USD''))
                                          ts sku qty cpu None (str_if_truthy cust)
                                          [(''financial_status'', financial_status),
                                           (''order_number'', dict_get data ''order_number''),
                                           (''line_items_count'', PInt (int n))]))))))
      | _ \<Rightarrow> Inl no_get)"

text \<open>\<open>MetaNormalizer.normalize\<close>.\<close>

definition meta_normalize :: "runtime \<Rightarrow> pyval \<Rightarrow> error + normalized_transaction" where
  "meta_normalize rt raw =
     (case raw of
        PDict data \<Rightarrow>
          (let spend_str = py_or (py_or (dict_get data ''spend'') (dict_get data ''amount''))
                             (PStr ''0'')
           in case Decimal (py_str spend_str) of
                Inl e \<Rightarrow> Inl e
              | Inr amt \<Rightarrow>
                 (case date_timestamp rt
                         (py_or (py_or (dict_get data ''date_start'') (dict_get data ''date''))
                                (dict_get data ''created_time'')) of
                    Inl e \<Rightarrow> Inl e
                  | Inr ts \<Rightarrow>
                     (let camp = py_or (dict_get data ''campaign_id'') (dict_get data ''id'')
                      in post_init (uuid4 rt) ''meta''
                           (py_str (dict_get_default data ''id'' (PStr [])))
                           AD_SPEND amt
                           (dict_get_default data ''currency'' (PStr ''USD''))
                           ts PNone PNone None (str_if_truthy camp) None
                           [(''campaign_name'',
                               py_or (dict_get data ''campaign_name'') (dict_get data ''name'')),
                            (''impressions'', dict_get data ''impressions''),
                            (''clicks'', dict_get data ''clicks''),
                            (''conversions'', dict_get data ''conversions''),
                            (''date_start'', dict_get data ''date_start''),
                            (''date_stop'', dict_get data ''date_stop'')])))
      | _ \<Rightarrow> Inl no_get)"

text \<open>
  \<open>a or data.get(outer, {}).get(inner)\<close>: the nested lookup runs only when \<open>a\<close> is falsy,
  and raises when the outer value is not a dictionary.
\<close>

definition or_nested :: "pyval \<Rightarrow> (string \<times> pyval) list \<Rightarrow> string \<Rightarrow> string \<Rightarrow> error + pyval" where
  "or_nested a data outer inner =
     (if truthy a then Inr a else py_get (dict_get_default data outer (PDict [])) inner)"

text \<open>
  The first statements of \<open>GoogleNormalizer.normalize\<close>: the raw cost (\<open>cost_micros\<close>,
  else \<open>cost\<close>, else \<open>"0"\<close>), divided by \<open>Decimal("1000000")\<close> when the record has the key
  \<open>cost_micros\<close>.
\<close>

definition google_cost :: "(string \<times> pyval) list \<Rightarrow> pyval" where
  "google_cost data =
     py_or (py_or (dict_get data ''cost_micros'') (dict_get data ''cost'')) (PStr ''0'')"

definition google_amount :: "(string \<times> pyval) list \<Rightarrow> error + decimal" where
  "google_amount data =
     (let cost_micros = google_cost data
      in if dict_has data ''cost_micros''
         then (case Decimal (py_str cost_micros) of
                 Inl e \<Rightarrow> Inl e
               | Inr d \<Rightarrow> dec_div d (Dec False 1000000 0))
         else Decimal (py_str cost_micros))"

text \<open>\<open>GoogleNormalizer.normalize\<close>.\<close>

definition google_normalize :: "runtime \<Rightarrow> pyval \<Rightarrow> error + normalized_transaction" where
  "google_normalize rt raw =
     (case raw of
        PDict data \<Rightarrow>
          (case google_amount data of
                Inl e \<Rightarrow> Inl e
              | Inr amt \<Rightarrow>
                 (case or_nested (dict_get data ''date'') data ''segments'' ''date'' of
                    Inl e \<Rightarrow> Inl e
                  | Inr date_str \<Rightarrow>
                 (case date_timestamp rt date_str of
                    Inl e \<Rightarrow> Inl e
                  | Inr ts \<Rightarrow>
                 (case or_nested (dict_get data ''campaign_id'') data ''campaign'' ''id'' of
                    Inl e \<Rightarrow> Inl e
                  | Inr camp \<Rightarrow>
                 (case or_nested (dict_get data ''campaign_name'') data ''campaign'' ''name'' of
                    Inl e \<Rightarrow> Inl e
                  | Inr cname \<Rightarrow>
                 (case or_nested (dict_get data ''impressions'') data ''metrics'' ''impressions'' of
                    Inl e \<Rightarrow> Inl e
                  | Inr impressions \<Rightarrow>
                 (case or_nested (dict_get data ''clicks'') data ''metrics'' ''clicks'' of
                    Inl e \<Rightarrow> Inl e
                  | Inr clicks \<Rightarrow>
                 (case or_nested (dict_get data ''conversions'') data ''metrics'' ''conversions'' of
                    Inl e \<Rightarrow> Inl e
                  | Inr conversions \<Rightarrow>
                      post_init (uuid4 rt) ''google''
                        (py_str (dict_get_default data ''id'' (py_or camp (PStr []))))
                        AD_SPEND amt
                        (dict_get_default data ''currency_code'' (PStr ''USD''))
                        ts PNone PNone None (str_if_truthy camp) None
                        [(''campaign_name'', cname),
                         (''impressions'', impressions),
                         (''clicks'', clicks),
                         (''conversions'', conversions),
                         (''cost_micros'', dict_get data ''cost_micros'')]))))))))
      | _ \<Rightarrow> Inl no_get)"

text \<open>The adapters, as \<open>get_normalizer\<close> hands them out.\<close>

datatype normalizer = ShopifyNormalizer | MetaNormalizer | GoogleNormalizer

fun normalize :: "normalizer \<Rightarrow> runtime \<Rightarrow> pyval \<Rightarrow> error + normalized_transaction" where
  "normalize ShopifyNormalizer = shopify_normalize"
| "normalize MetaNormalizer = meta_normalize"
| "normalize GoogleNormalizer = google_normalize"

text \<open>
  \<open>Normalizer.normalize_batch\<close>: the list comprehension calls \<open>normalize\<close> on the records in
  order, and an exception of one call leaves the comprehension. The \<open>i\<close>-th call reads the
  clock and the identifier from \<open>rts i\<close>.
\<close>

fun normalize_batch_from ::
  "normalizer \<Rightarrow> (nat \<Rightarrow> runtime) \<Rightarrow> nat \<Rightarrow> pyval list \<Rightarrow> error + normalized_transaction list" where
  "normalize_batch_from self rts i [] = Inr []"
| "normalize_batch_from self rts i (record # records) =
     (case normalize self (rts i) record of
        Inl e \<Rightarrow> Inl e
      | Inr tx \<Rightarrow>
          (case normalize_batch_from self rts (Suc i) records of
             Inl e \<Rightarrow> Inl e
           | Inr txs \<Rightarrow> Inr (tx # txs)))"

definition normalize_batch ::
  "normalizer \<Rightarrow> (nat \<Rightarrow> runtime) \<Rightarrow> pyval list \<Rightarrow> error + normalized_transaction list" where
  "normalize_batch self rts records = normalize_batch_from self rts 0 records"

section \<open>The sync orchestrator: \<open>services/data_sync.py\<close>\<close>

text \<open>\<open>str(e)\<close> of an exception (the texts of library exceptions are abridged).\<close>

fun error_str :: "error \<Rightarrow> string" where
  "error_str (ValueError m) = m"
| "error_str (AttributeError m) = m"
| "error_str (TypeError m) = m"
| "error_str (KeyError m) = m"
| "error_str (CollaboratorError m) = m"
| "error_str OverflowError = ''date value out of range''"
| "error_str InvalidOperation = ''[<class decimal.InvalidOperation>]''"
| "error_str DivisionByZero = ''[<class decimal.DivisionByZero>]''"
| "error_str DecimalOverflow = ''[<class decimal.Overflow>]''"
| "error_str IndexError = ''list index out of range''"

text \<open>The report every sync returns.\<close>

record sync_report =
  report_platform :: string
  transactions_synced :: nat
  products_synced :: nat
  campaigns_synced :: nat
  errors :: "string list"

definition empty_report :: "string \<Rightarrow> sync_report" where
  "empty_report p =
     \<lparr>report_platform = p, transactions_synced = 0, products_synced = 0,
      campaigns_synced = 0, errors = []\<rparr>"

text \<open>A row of the \<open>transactions\<close> table, as \<open>_insert_transaction\<close> passes it.\<close>

record transaction_row =
  row_user_id :: string
  row_platform :: string
  row_platform_id :: string
  row_type :: string
  row_amount :: decimal
  row_currency :: string
  row_amount_usd :: decimal
  row_quantity :: pyval
  row_occurred_at :: timestamp_value

text \<open>
  The collaborators of a sync run. A date is its proleptic Gregorian ordinal
  (\<open>date.toordinal()\<close>); the fetch functions take the window as dates where the source
  passes their ISO text. The \<open>n\<close>-th database call of the service raises when
  \<open>db_error n\<close> is an exception. \<open>product_error\<close> and \<open>campaign_error\<close> say whether
  \<open>_upsert_product\<close> and \<open>_upsert_campaign\<close> raise while they compute their row from the raw
  record (the rows go to tables that nothing modelled here reads).
\<close>

record sync_env =
  today :: int
  router_error :: "error option"
  get_database_error :: "error option"
  db_error :: "nat \<Rightarrow> error option"
  new_user_id :: "string \<Rightarrow> string"
  sync_UUID :: "string \<Rightarrow> error + string"
  fetch_orders :: "string \<Rightarrow> int \<Rightarrow> int \<Rightarrow> error + pyval"
  fetch_products :: "string \<Rightarrow> error + pyval"
  fetch_ad_accounts :: "string \<Rightarrow> string \<Rightarrow> error + pyval"
  fetch_campaigns :: "string \<Rightarrow> string \<Rightarrow> pyval \<Rightarrow> int \<Rightarrow> int \<Rightarrow> error + pyval"
  product_error :: "pyval \<Rightarrow> error option"
  campaign_error :: "pyval \<Rightarrow> error option"
  runtimes :: "nat \<Rightarrow> runtime"

text \<open>
  The state a run reads and writes: whether \<open>self._db\<close> is set, how many database calls the
  service has made, how many times a normalizer has run, and the two tables the claims are
  about.
\<close>

record sync_state =
  db_set :: bool
  db_calls :: nat
  normalize_calls :: nat
  users :: "string \<rightharpoonup> string"
  transactions :: "transaction_row list"

text \<open>Python's \<open>date\<close> covers the ordinals 1 (0001-01-01) to 3652059 (9999-12-31).\<close>

definition max_ordinal :: int where
  "max_ordinal = 3652059"

text \<open>\<open>d - timedelta(days=n)\<close>.\<close>

definition date_sub_days :: "int \<Rightarrow> int \<Rightarrow> error + int" where
  "date_sub_days d n =
     (if 1 \<le> d - n \<and> d - n \<le> max_ordinal then Inr (d - n) else Inl OverflowError)"

text \<open>One database call: what the driver does is decided by the environment.\<close>

definition db_call :: "sync_env \<Rightarrow> sync_state \<Rightarrow> error option \<times> sync_state" where
  "db_call env st = (db_error env (db_calls st), st\<lparr>db_calls := Suc (db_calls st)\<rparr>)"

text \<open>
  \<open>DataSyncService._get_db\<close>: \<open>self._db = get_database()\<close> is assigned before \<open>connect()\<close>
  is awaited, so a failed connect leaves the handle set.
\<close>

definition service_get_db :: "sync_env \<Rightarrow> sync_state \<Rightarrow> error option \<times> sync_state" where
  "service_get_db env st =
     (if db_set st then (None, st)
      else case get_database_error env of
             Some e \<Rightarrow> (Some e, st)
           | None \<Rightarrow> db_call env (st\<lparr>db_set := True\<rparr>))"

text \<open>
  \<open>DataSyncService._get_user_uuid\<close>; it ends with \<open>return str(result) if result else None\<close>.
\<close>

definition service_get_user_uuid ::
  "sync_env \<Rightarrow> sync_state \<Rightarrow> string \<Rightarrow> (error + string option) \<times> sync_state" where
  "service_get_user_uuid env st external_id =
     (case service_get_db env st of
        (Some e, st1) \<Rightarrow> (Inl e, st1)
      | (None, st1) \<Rightarrow>
          (case db_call env st1 of
             (Some e, st2) \<Rightarrow> (Inl e, st2)
           | (None, st2) \<Rightarrow>
               (let result = users st2 external_id
                in (Inr (if truthy_opt_str result then result else None), st2))))"

text \<open>
  \<open>DataSyncService._ensure_user_uuid\<close>. The \<open>INSERT ... ON CONFLICT (external_id) DO
  NOTHING\<close> adds a row, with an id the database generates, when the user has none.
  \<open>if user_uuid:\<close> and \<open>if not user_uuid:\<close> test for \<open>None\<close> and for the empty string.
\<close>

definition ensure_user_uuid ::
  "sync_env \<Rightarrow> sync_state \<Rightarrow> string \<Rightarrow> (error + string) \<times> sync_state" where
  "ensure_user_uuid env st external_id =
     (case service_get_db env st of
        (Some e, st1) \<Rightarrow> (Inl e, st1)
      | (None, st1) \<Rightarrow>
          (case service_get_user_uuid env st1 external_id of
             (Inl e, st2) \<Rightarrow> (Inl e, st2)
           | (Inr found, st2) \<Rightarrow>
               (case (if truthy_opt_str found then found else None) of
                  Some user_uuid \<Rightarrow> (Inr user_uuid, st2)
                | None \<Rightarrow>
                    (case db_call env st2 of
                       (Some e, st3) \<Rightarrow> (Inl e, st3)
                     | (None, st3) \<Rightarrow>
                         (let st4 = (if users st3 external_id = None
                                     then st3\<lparr>users := (users st3)(external_id \<mapsto> new_user_id env external_id)\<rparr>
                                     else st3)
                          in case service_get_user_uuid env st4 external_id of
                               (Inl e, st5) \<Rightarrow> (Inl e, st5)
                             | (Inr created, st5) \<Rightarrow>
                                 (case (if truthy_opt_str created then created else None) of
                                    Some user_uuid \<Rightarrow> (Inr user_uuid, st5)
                                  | None \<Rightarrow>
                                      (Inl (ValueError (''Failed to create user for '' @ external_id)),
                                       st5)))))))"

text \<open>
  The attributes of a \<open>NormalizedTransaction\<close>: the fields of the dataclass and its
  methods.
\<close>

definition attribute_names :: "string list" where
  "attribute_names =
     [''id'', ''platform'', ''platform_id'', ''type'', ''amount'', ''currency'', ''timestamp'',
      ''amount_usd'', ''sku_id'', ''quantity'', ''cost_per_unit'', ''campaign_id'',
      ''customer_id'', ''metadata'', ''is_revenue'', ''is_refund'', ''is_expense'',
      ''is_marketing_expense'', ''get_effective_amount_usd'', ''to_dict'', ''from_dict'',
      ''validate'']"

text \<open>The exception of an attribute access that finds nothing under the name.\<close>

definition missing_attribute :: "string \<Rightarrow> error" where
  "missing_attribute name =
     AttributeError (quoted ''NormalizedTransaction'' @ '' object has no attribute '' @ quoted name)"

text \<open>
  Reading a time from a transaction by attribute name, \<open>transaction.<name>\<close>: \<open>timestamp\<close> is
  the one attribute that holds a time, and a name outside \<open>attribute_names\<close> raises
  \<open>AttributeError\<close>. (The other attributes hold no time; the service reads none of them
  where it wants one, and the branch for them only keeps the function total.)
\<close>

definition getattr_time :: "normalized_transaction \<Rightarrow> string \<Rightarrow> error + timestamp_value" where
  "getattr_time tx name =
     (if name = ''timestamp'' then Inr (timestamp tx)
      else if name \<in> set attribute_names then Inl (TypeError (name @ '' is not a time''))
      else Inl (missing_attribute name))"

text \<open>
  \<open>float(d)\<close> of a \<open>Decimal\<close>: a signaling NaN raises. The float is represented by the
  decimal it was made from.
\<close>

definition py_float :: "decimal \<Rightarrow> error + decimal" where
  "py_float d =
     (if d = DNaN True then Inl (ValueError ''cannot convert signaling NaN to float'')
      else Inr d)"

definition type_mapping :: "transaction_type \<Rightarrow> string" where
  "type_mapping t =
     (case t of ORDER \<Rightarrow> ''order'' | REFUND \<Rightarrow> ''refund'' | AD_SPEND \<Rightarrow> ''ad_spend''
      | EXPENSE \<Rightarrow> ''expense'' | PAYOUT \<Rightarrow> ''payout'' | INVENTORY_COST \<Rightarrow> ''inventory_cost'')"

text \<open>
  Modelled from the spec: the uniqueness constraint of the \<open>transactions\<close> table, which is
  declared in a migration that is not among the sources. The specification keys the upsert
  on (user, platform, platformId); \<open>ON CONFLICT DO NOTHING\<close> skips a row that has the key of
  a stored one.
\<close>

definition conflicts :: "transaction_row \<Rightarrow> transaction_row \<Rightarrow> bool" where
  "conflicts r r' =
     (row_user_id r = row_user_id r' \<and> row_platform r = row_platform r' \<and>
      row_platform_id r = row_platform_id r')"

definition insert_on_conflict_do_nothing ::
  "transaction_row \<Rightarrow> transaction_row list \<Rightarrow> transaction_row list" where
  "insert_on_conflict_do_nothing r rows = (if \<exists>r' \<in> set rows. conflicts r r' then rows else rows @ [r])"

text \<open>
  \<open>DataSyncService._insert_transaction\<close>. The arguments of \<open>db.execute\<close> are evaluated left
  to right before the call: \<open>uuid.UUID(user_uuid)\<close>, the two \<open>float\<close> conversions, and
  \<open>transaction.occurred_at\<close> last.
\<close>

definition insert_transaction ::
  "sync_env \<Rightarrow> sync_state \<Rightarrow> string \<Rightarrow> normalized_transaction \<Rightarrow> error option \<times> sync_state" where
  "insert_transaction env st user_uuid tx =
     (case service_get_db env st of
        (Some e, st1) \<Rightarrow> (Some e, st1)
      | (None, st1) \<Rightarrow>
          (case sync_UUID env user_uuid of
             Inl e \<Rightarrow> (Some e, st1)
           | Inr uid \<Rightarrow>
               (case py_float (amount tx) of
                  Inl e \<Rightarrow> (Some e, st1)
                | Inr amt \<Rightarrow>
                    (case (case amount_usd tx of
                             None \<Rightarrow> py_float (amount tx)
                           | Some usd \<Rightarrow> if dec_truthy usd then py_float usd
                                          else py_float (amount tx)) of
                       Inl e \<Rightarrow> (Some e, st1)
                     | Inr usd \<Rightarrow>
                         (case getattr_time tx ''occurred_at'' of
                            Inl e \<Rightarrow> (Some e, st1)
                          | Inr occurred \<Rightarrow>
                              (case db_call env st1 of
                                 (Some e, st2) \<Rightarrow> (Some e, st2)
                               | (None, st2) \<Rightarrow>
                                   (None,
                                    st2\<lparr>transactions :=
                                      insert_on_conflict_do_nothing
                                        \<lparr>row_user_id = uid,
                                         row_platform = platform tx,
                                         row_platform_id = platform_id tx,
                                         row_type = type_mapping (tx_type tx),
                                         row_amount = amt,
                                         row_currency = currency tx,
                                         row_amount_usd = usd,
                                         row_quantity = quantity tx,
                                         row_occurred_at = occurred\<rparr>
                                        (transactions st2)\<rparr>)))))))"

text \<open>
  \<open>_upsert_product\<close> and \<open>_upsert_campaign\<close>: get the handle, compute the row, execute the
  upsert.
\<close>

definition upsert_product :: "sync_env \<Rightarrow> sync_state \<Rightarrow> pyval \<Rightarrow> error option \<times> sync_state" where
  "upsert_product env st product_data =
     (case service_get_db env st of
        (Some e, st1) \<Rightarrow> (Some e, st1)
      | (None, st1) \<Rightarrow>
          (case product_error env product_data of
             Some e \<Rightarrow> (Some e, st1)
           | None \<Rightarrow> db_call env st1))"

definition upsert_campaign :: "sync_env \<Rightarrow> sync_state \<Rightarrow> pyval \<Rightarrow> error option \<times> sync_state" where
  "upsert_campaign env st campaign_data =
     (case service_get_db env st of
        (Some e, st1) \<Rightarrow> (Some e, st1)
      | (None, st1) \<Rightarrow>
          (case campaign_error env campaign_data of
             Some e \<Rightarrow> (Some e, st1)
           | None \<Rightarrow> db_call env st1))"

text \<open>What a \<open>for\<close> loop iterates over.\<close>

definition py_iter :: "pyval \<Rightarrow> error + pyval list" where
  "py_iter v =
     (case v of
        PList xs \<Rightarrow> Inr xs
      | PDict kvs \<Rightarrow> Inr (map (\<lambda>kv. PStr (fst kv)) kvs)
      | PStr s \<Rightarrow> Inr (map (\<lambda>ch. PStr [ch]) s)
      | _ \<Rightarrow> Inl (TypeError ''object is not iterable''))"

text \<open>Appending to \<open>result["errors"]\<close> and counting.\<close>

definition add_error :: "string \<Rightarrow> sync_report \<Rightarrow> sync_report" where
  "add_error m r = r\<lparr>errors := errors r @ [m]\<rparr>"

text \<open>
  The body of the \<open>try\<close> inside the order loop: normalize, insert, count. The normalizer
  takes its clock and identifier from the next runtime of the environment.
\<close>

definition normalize_next ::
  "normalizer \<Rightarrow> sync_env \<Rightarrow> sync_state \<Rightarrow> pyval \<Rightarrow> (error + normalized_transaction) \<times> sync_state" where
  "normalize_next n env st raw =
     (normalize n (runtimes env (normalize_calls st)) raw,
      st\<lparr>normalize_calls := Suc (normalize_calls st)\<rparr>)"

definition sync_order ::
  "sync_env \<Rightarrow> string \<Rightarrow> pyval \<Rightarrow> sync_report \<times> sync_state \<Rightarrow> error option \<times> sync_report \<times> sync_state" where
  "sync_order env user_uuid order_data rs =
     (case normalize_next ShopifyNormalizer env (snd rs) order_data of
        (Inl e, st1) \<Rightarrow> (Some e, fst rs, st1)
      | (Inr normalized, st1) \<Rightarrow>
          (case insert_transaction env st1 user_uuid normalized of
             (Some e, st2) \<Rightarrow> (Some e, fst rs, st2)
           | (None, st2) \<Rightarrow>
               (None, (fst rs)\<lparr>transactions_synced := transactions_synced (fst rs) + 1\<rparr>, st2)))"

text \<open>
  A loop over raw records whose body is a \<open>try\<close> with the handler
  \<open>result["errors"].append(f"<label> {item.get('id', 'unknown')}: {str(e)}")\<close>. The handler
  itself raises when the item is not a dictionary; that exception leaves the loop
  (\<open>Some\<close>), with the report as it stands.
\<close>

fun try_each ::
  "(pyval \<Rightarrow> sync_report \<times> sync_state \<Rightarrow> error option \<times> sync_report \<times> sync_state) \<Rightarrow> string \<Rightarrow>
   pyval list \<Rightarrow> sync_report \<times> sync_state \<Rightarrow> error option \<times> sync_report \<times> sync_state" where
  "try_each body label [] rs = (None, rs)"
| "try_each body label (item # items) rs =
     (case body item rs of
        (None, rs1) \<Rightarrow> try_each body label items rs1
      | (Some e, rs1) \<Rightarrow>
          (case py_get_default item ''id'' (PStr ''unknown'') of
             Inl e2 \<Rightarrow> (Some e2, rs1)
           | Inr ident \<Rightarrow>
               try_each body label items
                 (add_error (label @ '' '' @ py_str ident @ '': '' @ error_str e) (fst rs1), snd rs1)))"

text \<open>
  A \<open>try\<close> around a fetch and the loop over what it returned, with the handler
  \<open>result["errors"].append(f"<message>: {str(e)}")\<close>.
\<close>

definition fetch_and_loop ::
  "(error + pyval) \<Rightarrow> (pyval list \<Rightarrow> sync_report \<times> sync_state \<Rightarrow> error option \<times> sync_report \<times> sync_state) \<Rightarrow>
   string \<Rightarrow> sync_report \<times> sync_state \<Rightarrow> sync_report \<times> sync_state" where
  "fetch_and_loop fetched loop message rs =
     (case fetched of
        Inl e \<Rightarrow> (add_error (message @ '': '' @ error_str e) (fst rs), snd rs)
      | Inr v \<Rightarrow>
          (case py_iter v of
             Inl e \<Rightarrow> (add_error (message @ '': '' @ error_str e) (fst rs), snd rs)
           | Inr items \<Rightarrow>
               (case loop items rs of
                  (None, rs1) \<Rightarrow> rs1
                | (Some e, rs1) \<Rightarrow> (add_error (message @ '': '' @ error_str e) (fst rs1), snd rs1))))"

definition sync_product ::
  "sync_env \<Rightarrow> pyval \<Rightarrow> sync_report \<times> sync_state \<Rightarrow> error option \<times> sync_report \<times> sync_state" where
  "sync_product env product_data rs =
     (case upsert_product env (snd rs) product_data of
        (Some e, st1) \<Rightarrow> (Some e, fst rs, st1)
      | (None, st1) \<Rightarrow>
          (None, (fst rs)\<lparr>products_synced := products_synced (fst rs) + 1\<rparr>, st1))"

text \<open>
  What \<open>_sync_shopify\<close>, \<open>_sync_meta\<close> and \<open>_sync_google\<close> do before their first \<open>try\<close>: the
  router, the database handle, the user's id. An exception here leaves the method.
\<close>

definition sync_prologue ::
  "sync_env \<Rightarrow> sync_state \<Rightarrow> string \<Rightarrow> (error + string) \<times> sync_state" where
  "sync_prologue env st user_id =
     (case router_error env of
        Some e \<Rightarrow> (Inl e, st)
      | None \<Rightarrow>
          (case service_get_db env st of
             (Some e, st1) \<Rightarrow> (Inl e, st1)
           | (None, st1) \<Rightarrow> ensure_user_uuid env st1 user_id))"

text \<open>\<open>DataSyncService._sync_shopify\<close>.\<close>

definition sync_shopify ::
  "sync_env \<Rightarrow> sync_state \<Rightarrow> string \<Rightarrow> int \<Rightarrow> int \<Rightarrow> (error + sync_report) \<times> sync_state" where
  "sync_shopify env st user_id date_from date_to =
     (case sync_prologue env st user_id of
        (Inl e, st1) \<Rightarrow> (Inl e, st1)
      | (Inr user_uuid, st1) \<Rightarrow>
          (let rs1 = fetch_and_loop (fetch_orders env user_id date_from date_to)
                       (try_each (sync_order env user_uuid) ''Order'')
                       ''Failed to fetch orders'' (empty_report ''shopify'', st1);
               rs2 = fetch_and_loop (fetch_products env user_id)
                       (try_each (sync_product env) ''Product'')
                       ''Failed to fetch products'' rs1
           in (Inr (fst rs2), snd rs2)))"

text \<open>
  The body of the \<open>try\<close> inside the campaign loop of \<open>_sync_meta\<close> and \<open>_sync_google\<close>: store
  the campaign, count it, normalize its spend, insert the transaction, count it.
\<close>

definition sync_campaign ::
  "normalizer \<Rightarrow> sync_env \<Rightarrow> string \<Rightarrow> pyval \<Rightarrow> sync_report \<times> sync_state \<Rightarrow>
   error option \<times> sync_report \<times> sync_state" where
  "sync_campaign n env user_uuid campaign_data rs =
     (case upsert_campaign env (snd rs) campaign_data of
        (Some e, st1) \<Rightarrow> (Some e, fst rs, st1)
      | (None, st1) \<Rightarrow>
          (let r1 = (fst rs)\<lparr>campaigns_synced := campaigns_synced (fst rs) + 1\<rparr>
           in case normalize_next n env st1 campaign_data of
                (Inl e, st2) \<Rightarrow> (Some e, r1, st2)
              | (Inr normalized, st2) \<Rightarrow>
                  (case insert_transaction env st2 user_uuid normalized of
                     (Some e, st3) \<Rightarrow> (Some e, r1, st3)
                   | (None, st3) \<Rightarrow>
                       (None, r1\<lparr>transactions_synced := transactions_synced r1 + 1\<rparr>, st3))))"

text \<open>
  The loop over ad accounts (Meta) or customers (Google). Reading the account's id is
  outside the inner \<open>try\<close>: on an account that is not a dictionary it raises and leaves the
  loop.
\<close>

fun sync_accounts ::
  "normalizer \<Rightarrow> sync_env \<Rightarrow> string \<Rightarrow> string \<Rightarrow> string \<Rightarrow> string \<Rightarrow> string \<Rightarrow> int \<Rightarrow> int \<Rightarrow>
   pyval list \<Rightarrow> sync_report \<times> sync_state \<Rightarrow> error option \<times> sync_report \<times> sync_state" where
  "sync_accounts n env user_id user_uuid plat id_key label date_from date_to [] rs = (None, rs)"
| "sync_accounts n env user_id user_uuid plat id_key label date_from date_to (account # accounts) rs =
     (case (case py_get_default account id_key (PStr []) of
              Inl e \<Rightarrow> Inl e
            | Inr dflt \<Rightarrow> py_get_default account ''id'' dflt) of
        Inl e \<Rightarrow> (Some e, rs)
      | Inr account_id \<Rightarrow>
          sync_accounts n env user_id user_uuid plat id_key label date_from date_to accounts
            (fetch_and_loop (fetch_campaigns env user_id plat account_id date_from date_to)
               (try_each (sync_campaign n env user_uuid) ''Campaign'')
               (label @ '' '' @ py_str account_id) rs))"

text \<open>\<open>DataSyncService._sync_meta\<close> and \<open>DataSyncService._sync_google\<close>.\<close>

definition sync_meta ::
  "sync_env \<Rightarrow> sync_state \<Rightarrow> string \<Rightarrow> int \<Rightarrow> int \<Rightarrow> (error + sync_report) \<times> sync_state" where
  "sync_meta env st user_id date_from date_to =
     (case sync_prologue env st user_id of
        (Inl e, st1) \<Rightarrow> (Inl e, st1)
      | (Inr user_uuid, st1) \<Rightarrow>
          (let rs1 = fetch_and_loop (fetch_ad_accounts env user_id ''meta'')
                       (sync_accounts MetaNormalizer env user_id user_uuid ''meta'' ''account_id''
                          ''Account'' date_from date_to)
                       ''Failed to fetch ad accounts'' (empty_report ''meta'', st1)
           in (Inr (fst rs1), snd rs1)))"

definition sync_google ::
  "sync_env \<Rightarrow> sync_state \<Rightarrow> string \<Rightarrow> int \<Rightarrow> int \<Rightarrow> (error + sync_report) \<times> sync_state" where
  "sync_google env st user_id date_from date_to =
     (case sync_prologue env st user_id of
        (Inl e, st1) \<Rightarrow> (Inl e, st1)
      | (Inr user_uuid, st1) \<Rightarrow>
          (let rs1 = fetch_and_loop (fetch_ad_accounts env user_id ''google'')
                       (sync_accounts GoogleNormalizer env user_id user_uuid ''google''
                          ''customer_id'' ''Customer'' date_from date_to)
                       ''Failed to fetch customers'' (empty_report ''google'', st1)
           in (Inr (fst rs1), snd rs1)))"

text \<open>
  \<open>DataSyncService.sync_platform\<close>. The default window is computed before the \<open>try\<close>; the
  \<open>try\<close> covers the dispatch, and its handler appends to the report the method started
  with.
\<close>

definition sync_platform ::
  "sync_env \<Rightarrow> sync_state \<Rightarrow> string \<Rightarrow> string \<Rightarrow> int option \<Rightarrow> int option \<Rightarrow>
   (error + sync_report) \<times> sync_state" where
  "sync_platform env st user_id platform_name date_from date_to =
     (let plat = py_lower platform_name;
          date_to' = (case date_to of None \<Rightarrow> today env | Some d \<Rightarrow> d)
      in case (case date_from of None \<Rightarrow> date_sub_days date_to' 30 | Some d \<Rightarrow> Inr d) of
           Inl e \<Rightarrow> (Inl e, st)
         | Inr date_from' \<Rightarrow>
             (let result = empty_report plat;
                  dispatched =
                    (if plat = ''shopify'' then sync_shopify env st user_id date_from' date_to'
                     else if plat = ''meta'' then sync_meta env st user_id date_from' date_to'
                     else if plat = ''google'' then sync_google env st user_id date_from' date_to'
                     else (Inr (add_error (''Unsupported platform: '' @ plat) result), st))
              in case dispatched of
                   (Inl e, st1) \<Rightarrow> (Inr (add_error (error_str e) result), st1)
                 | (Inr r, st1) \<Rightarrow> (Inr r, st1)))"

section \<open>Concrete inputs, used to instantiate the theorems\<close>

definition example_row :: token_row where
  "example_row =
     \<lparr>access_token_encrypted = ''old-access'',
      refresh_token_encrypted = Some ''refresh-1'',
      row_expires_at = Some \<lparr>micros = unix_epoch_micros, tzoffset = Some 0\<rparr>,
      row_scopes = None,
      row_platform_user_id = None\<rparr>"

definition example_tm_env :: tm_env where
  "example_tm_env =
     \<lparr>connect = ConnectOK,
      fetchval_user = (\<lambda>u. Inr (Some ''7d444840-9dc0-11d1-b245-5ffdce74fad2'')),
      uuid_UUID = Inr,
      fetchrow_token = (\<lambda>u p. Inr (Some example_row)),
      environ = (\<lambda>n. Some ''configured''),
      http_get_meta = (\<lambda>i s r. Inl (CollaboratorError ''connection refused'')),
      http_post_google = (\<lambda>i s r. Inr \<lparr>status_code = 400, json = Inl (ValueError [])\<rparr>),
      now_cache_check = unix_epoch_micros + 1000,
      now_load_check = unix_epoch_micros + 2000,
      now_refresh = unix_epoch_micros + 3000\<rparr>"

definition empty_tm_state :: tm_state where
  "empty_tm_state = \<lparr>cache = Map.empty, has_db = False\<rparr>"

definition example_runtime :: runtime where
  "example_runtime =
     \<lparr>now = \<lparr>micros = unix_epoch_micros + 1000, tzoffset = None\<rparr>,
      uuid4 = ''0b0e7c1a-5d1f-4c53-9d53-0a4f3a1f6c11'',
      fromisoformat = (\<lambda>s. if s = ''2024-01-15T10:30:00+00:00''
                            then Inr \<lparr>micros = 63840911400000000, tzoffset = Some 0\<rparr>
                            else Inl (ValueError ''Invalid isoformat string'')),
      strptime_ymd = (\<lambda>s. if s = ''2024-01-15''
                           then Inr \<lparr>micros = 63840873600000000, tzoffset = None\<rparr>
                           else Inl (ValueError ''time data does not match format''))\<rparr>"

definition eur_order :: pyval where
  "eur_order =
     PDict [(''id'', PStr ''ord_2''), (''total_price'', PStr ''10.00''), (''currency'', PStr ''EUR'')]"

definition usd_order :: pyval where
  "usd_order =
     PDict [(''id'', PStr ''ord_1''), (''total_price'', PStr ''49.99''), (''currency'', PStr ''USD''),
            (''created_at'', PStr ''2024-01-15T10:30:00Z''),
            (''line_items'',
               PList [PDict [(''sku'', PStr ''ABC''), (''quantity'', PInt 2),
                             (''cost_per_item'', PStr ''10.00'')]])]"

definition refunded_order :: pyval where
  "refunded_order =
     PDict [(''id'', PStr ''ord_3''), (''total_price'', PStr ''-25.50''),
            (''financial_status'', PStr ''refunded'')]"

definition kind_refund_order :: pyval where
  "kind_refund_order =
     PDict [(''id'', PStr ''ord_4''), (''total_price'', PStr ''5''),
            (''financial_status'', PStr ''paid''), (''kind'', PStr ''refund'')]"

definition malformed_order :: pyval where
  "malformed_order =
     PDict [(''id'', PStr ''ord_5''), (''total_price'', PStr ''abc''), (''currency'', PStr ''USD'')]"

definition five_orders :: "pyval list" where
  "five_orders = [usd_order, eur_order, malformed_order, refunded_order, kind_refund_order]"

definition micros_record :: pyval where
  "micros_record =
     PDict [(''campaign_id'', PStr ''123456789''), (''campaign_name'', PStr ''Search Campaign''),
            (''cost_micros'', PStr ''1500000''), (''date'', PStr ''2024-01-15''),
            (''impressions'', PStr ''5000''), (''clicks'', PStr ''100''),
            (''conversions'', PStr ''5'')]"

definition zero_micros_record :: pyval where
  "zero_micros_record =
     PDict [(''campaign_id'', PStr ''123456789''), (''cost_micros'', PInt 0),
            (''cost'', PStr ''5.00''), (''date'', PStr ''2024-01-15'')]"

definition direct_cost_record :: pyval where
  "direct_cost_record =
     PDict [(''campaign_id'', PStr ''123456789''), (''cost'', PStr ''5.00''),
            (''date'', PStr ''2024-01-15'')]"

definition amount_only_order :: pyval where
  "amount_only_order = PDict [(''id'', PStr ''ord_7''), (''amount'', PStr ''5'')]"

definition negative_order :: pyval where
  "negative_order = PDict [(''id'', PStr ''ord_6''), (''total_price'', PStr ''-5'')]"

definition later_runtime :: runtime where
  "later_runtime = example_runtime\<lparr>now := \<lparr>micros = unix_epoch_micros + 2000, tzoffset = None\<rparr>\<rparr>"

definition example_sync_env :: sync_env where
  "example_sync_env =
     \<lparr>today = 738900,
      router_error = None,
      get_database_error = None,
      db_error = (\<lambda>n. None),
      new_user_id = (\<lambda>u. ''7d444840-9dc0-11d1-b245-5ffdce74fad2''),
      sync_UUID = Inr,
      fetch_orders = (\<lambda>u f t. Inr (PList [usd_order, eur_order])),
      fetch_products = (\<lambda>u. Inr (PList [])),
      fetch_ad_accounts = (\<lambda>u p. Inr (PList [])),
      fetch_campaigns = (\<lambda>u p a f t. Inr (PList [])),
      product_error = (\<lambda>p. None),
      campaign_error = (\<lambda>c. None),
      runtimes = (\<lambda>n. example_runtime)\<rparr>"

definition empty_sync_state :: sync_state where
  "empty_sync_state =
     \<lparr>db_set = False, db_calls = 0, normalize_calls = 0, users = Map.empty, transactions = []\<rparr>"

section \<open>Properties of the credential expiry check\<close>

declare ndigits.simps [simp del]

declare strip_zeros.simps [simp del]

lemmas eval_defs = Decimal_def parse_decimal_def parse_number_def parse_exponent_def py_strip_def
  is_space_def is_digit_def digit_val_def digits_val_def py_lower_def char_of_def bit_Suc_0_iff
  Let_def

lemma dt_sub_seconds_in_range:
  "0 \<le> micros d - n * 1000000 \<Longrightarrow> micros d - n * 1000000 \<le> max_micros \<Longrightarrow>
   dt_sub_seconds d n = Inr (d\<lparr>micros := micros d - n * 1000000\<rparr>)"
  by (simp add: dt_sub_seconds_def)

lemma is_expired_absent: "expires_at t = None \<Longrightarrow> is_expired clock t b = Inr False"
  by (simp add: is_expired_def)

lemma is_expired_in_range:
  assumes "expires_at t = Some e"
    and "0 \<le> micros e - b * 1000000" and "micros e - b * 1000000 \<le> max_micros"
  shows "is_expired clock t b = Inr (utc_micros e - b * 1000000 \<le> clock)"
  using assms
  by (cases "tzoffset e")
     (simp_all add: is_expired_def dt_sub_seconds_def utc_micros_def algebra_simps)

text \<open>
  C6. With the default buffer of 300 seconds, a credential whose \<open>expires_at\<close> denotes the
  instant 60 seconds after the clock reading is reported expired, one whose \<open>expires_at\<close>
  is 3600 seconds after it is reported not expired, and a credential without
  \<open>expires_at\<close> is never expired, whatever the buffer. The clock reads a time on or after
  1970-01-01 and \<open>expires_at\<close> is a datetime Python can represent.
\<close>

theorem is_expired_buffer:
  assumes "valid_datetime e" and "unix_epoch_micros \<le> clock"
  shows "(utc_micros e = clock + 60 * 1000000 \<longrightarrow>
            is_expired clock (t\<lparr>expires_at := Some e\<rparr>) default_buffer_seconds = Inr True) \<and>
         (utc_micros e = clock + 3600 * 1000000 \<longrightarrow>
            is_expired clock (t\<lparr>expires_at := Some e\<rparr>) default_buffer_seconds = Inr False) \<and>
         is_expired clock (t\<lparr>expires_at := None\<rparr>) b = Inr False"
proof -
  have off: "- (86400 * 1000000) < micros e - utc_micros e"
    using assms(1) by (auto simp: valid_datetime_def utc_micros_def split: option.splits)
  have hi: "micros e - 300 * 1000000 \<le> max_micros"
    using assms(1) by (simp add: valid_datetime_def)
  have eq: "is_expired clock (t\<lparr>expires_at := Some e\<rparr>) 300 =
              Inr (utc_micros e - 300 * 1000000 \<le> clock)"
    if "clock \<le> utc_micros e"
  proof (rule is_expired_in_range)
    show "expires_at (t\<lparr>expires_at := Some e\<rparr>) = Some e" by simp
    show "0 \<le> micros e - 300 * 1000000"
      using off that assms(2) by (simp add: unix_epoch_micros_def)
    show "micros e - 300 * 1000000 \<le> max_micros" by (rule hi)
  qed
  have none: "is_expired clock (t\<lparr>expires_at := None\<rparr>) b = Inr False"
    by (simp add: is_expired_def)
  show ?thesis
    using none by (simp add: eq default_buffer_seconds_def)
qed

theorem is_expired_buffer_witness:
  "is_expired (unix_epoch_micros + 1000)
     \<lparr>access_token = ''tok'', refresh_token = None,
      expires_at = Some \<lparr>micros = unix_epoch_micros + 1000 + 60 * 1000000, tzoffset = None\<rparr>,
      platform_user_id = None, scopes = None, token_metadata = None\<rparr>
     default_buffer_seconds = Inr True \<and>
   is_expired (unix_epoch_micros + 1000)
     \<lparr>access_token = ''tok'', refresh_token = None,
      expires_at = Some \<lparr>micros = unix_epoch_micros + 1000 + 3600 * 1000000, tzoffset = Some 0\<rparr>,
      platform_user_id = None, scopes = None, token_metadata = None\<rparr>
     default_buffer_seconds = Inr False"
proof -
  let ?clock = "unix_epoch_micros + 1000"
  let ?t = "\<lparr>access_token = ''tok'', refresh_token = None, expires_at = None,
             platform_user_id = None, scopes = None, token_metadata = None\<rparr>"
  let ?e1 = "\<lparr>micros = ?clock + 60 * 1000000, tzoffset = None\<rparr>"
  let ?e2 = "\<lparr>micros = ?clock + 3600 * 1000000, tzoffset = Some 0\<rparr>"
  have v1: "valid_datetime ?e1" and v2: "valid_datetime ?e2"
    by (simp_all add: valid_datetime_def unix_epoch_micros_def max_micros_def)
  have n: "unix_epoch_micros \<le> ?clock" by simp
  have u1: "utc_micros ?e1 = ?clock + 60 * 1000000" and u2: "utc_micros ?e2 = ?clock + 3600 * 1000000"
    by (simp_all add: utc_micros_def)
  from is_expired_buffer [OF v1 n, of ?t 0] u1
  have a: "is_expired ?clock (?t\<lparr>expires_at := Some ?e1\<rparr>) default_buffer_seconds = Inr True"
    by blast
  from is_expired_buffer [OF v2 n, of ?t 0] u2
  have b: "is_expired ?clock (?t\<lparr>expires_at := Some ?e2\<rparr>) default_buffer_seconds = Inr False"
    by blast
  from a b show ?thesis by simp
qed

section \<open>Properties of \<open>get_token\<close>\<close>

lemma stored_credentialD:
  assumes "stored_credential env st user_id pf = Some token"
  shows "\<exists>st1 st2 u uu row.
           get_db env st = (True, st1) \<and> get_user_uuid env st1 user_id = (Some u, st2) \<and>
           u \<noteq> [] \<and> uuid_UUID env u = Inr uu \<and> fetchrow_token env uu pf = Inr (Some row) \<and>
           token = token_of_row row"
  using assms unfolding stored_credential_def
  by (simp split: prod.splits bool.splits option.splits sum.splits if_splits)

lemma cache_get_put: "cache_get (cache_put st u p t) u p = Some t"
  by (simp add: cache_get_def cache_put_def)

lemma get_token_after_miss:
  assumes "cache_miss env st user_id pf"
    and "stored_credential env st user_id pf = Some token"
  shows "\<exists>st3. cache_get st3 user_id pf = Some token \<and>
           get_token env st user_id pf auto_refresh =
             (if \<not> auto_refresh then Some (Inr (Some token), st3)
              else case is_expired (now_load_check env) token default_buffer_seconds of
                     Inl e \<Rightarrow> Some (Inr (cache_get st3 user_id pf), st3)
                   | Inr expired \<Rightarrow>
                       if expired \<and> truthy_opt_str (refresh_token token) then
                         (case refresh_token_call env pf token of
                            Inl e \<Rightarrow> Some (Inr (Some token), st3)
                          | Inr None \<Rightarrow> Some (Inr (Some token), st3)
                          | Inr (Some refreshed) \<Rightarrow> None)
                       else Some (Inr (Some token), st3))"
proof -
  from stored_credentialD [OF assms(2)] obtain st1 st2 u uu row where
    db: "get_db env st = (True, st1)" and uid: "get_user_uuid env st1 user_id = (Some u, st2)"
    and ne: "u \<noteq> []" and uu: "uuid_UUID env u = Inr uu" and row: "fetchrow_token env uu pf = Inr (Some row)"
    and tok: "token = token_of_row row"
    by blast
  have miss: "(case cache_get st user_id pf of
              None \<Rightarrow> Inr None
            | Some cached \<Rightarrow>
                (case is_expired (now_cache_check env) cached default_buffer_seconds of
                   Inl e \<Rightarrow> Inl e
                 | Inr expired \<Rightarrow> Inr (if expired then None else Some cached))) = Inr None"
    using assms(1) by (simp add: cache_miss_def split: option.splits)
  let ?st3 = "cache_put st2 user_id pf token"
  have "get_token env st user_id pf auto_refresh =
             (if \<not> auto_refresh then Some (Inr (Some token), ?st3)
              else case is_expired (now_load_check env) token default_buffer_seconds of
                     Inl e \<Rightarrow> Some (Inr (cache_get ?st3 user_id pf), ?st3)
                   | Inr expired \<Rightarrow>
                       if expired \<and> truthy_opt_str (refresh_token token) then
                         (case refresh_token_call env pf token of
                            Inl e \<Rightarrow> Some (Inr (Some token), ?st3)
                          | Inr None \<Rightarrow> Some (Inr (Some token), ?st3)
                          | Inr (Some refreshed) \<Rightarrow> None)
                       else Some (Inr (Some token), ?st3))"
    unfolding get_token_def miss by (simp add: db uid ne uu row tok [symmetric] Let_def)
  moreover have "cache_get ?st3 user_id pf = Some token" by (rule cache_get_put)
  ultimately show ?thesis by blast
qed

text \<open>
  C7. A credential is stored for the user and platform, it is expired under the default
  buffer and carries a non-empty refresh token, and the cache holds no unexpired entry
  (so that the call reaches the refresh). When the refresh attempt raises or yields no new
  credential, \<open>get_token\<close> with \<open>auto_refresh\<close> returns the stored credential itself: the
  call returns, and what it returns is a value, not an exception.
\<close>

theorem get_token_refresh_failure:
  assumes "stored_credential env st user_id pf = Some token"
    and "is_expired (now_load_check env) token default_buffer_seconds = Inr True"
    and "truthy_opt_str (refresh_token token)"
    and "cache_miss env st user_id pf"
    and "refresh_token_call env pf token = Inr None \<or>
         (\<exists>e. refresh_token_call env pf token = Inl e)"
  shows "\<exists>st'. get_token env st user_id pf True = Some (Inr (Some token), st')"
proof -
  from get_token_after_miss [OF assms(4) assms(1), of True]
  obtain st3 where
    "get_token env st user_id pf True =
       (case refresh_token_call env pf token of
          Inl e \<Rightarrow> Some (Inr (Some token), st3)
        | Inr None \<Rightarrow> Some (Inr (Some token), st3)
        | Inr (Some refreshed) \<Rightarrow> None)"
    using assms(2,3) by auto
  with assms(5) show ?thesis by auto
qed

lemma ex_stored:
  "stored_credential example_tm_env empty_tm_state ''u1'' p = Some (token_of_row example_row)"
  by (simp add: stored_credential_def get_db_def get_user_uuid_def truthy_opt_str_def
      example_tm_env_def empty_tm_state_def)

lemma ex_expired:
  "is_expired (now_load_check example_tm_env) (token_of_row example_row) default_buffer_seconds
     = Inr True"
  by (simp add: is_expired_def token_of_row_def example_row_def example_tm_env_def
      dt_sub_seconds_def default_buffer_seconds_def unix_epoch_micros_def max_micros_def
      utc_micros_def)

lemma ex_miss: "cache_miss example_tm_env empty_tm_state u p"
  by (simp add: cache_miss_def cache_get_def empty_tm_state_def)

lemma ex_refresh_meta:
  "refresh_token_call example_tm_env ''meta'' (token_of_row example_row)
     = Inl (CollaboratorError ''connection refused'')"
  by (simp add: refresh_token_call_def environ_get_def example_tm_env_def)

lemma ex_refresh_google:
  "refresh_token_call example_tm_env ''google'' (token_of_row example_row) = Inr None"
  by (simp add: refresh_token_call_def environ_get_def example_tm_env_def)

theorem get_token_refresh_failure_witness:
  "(\<exists>st'. get_token example_tm_env empty_tm_state ''u1'' ''meta'' True
            = Some (Inr (Some (token_of_row example_row)), st')) \<and>
   (\<exists>st'. get_token example_tm_env empty_tm_state ''u1'' ''google'' True
            = Some (Inr (Some (token_of_row example_row)), st'))"
proof -
  have t: "truthy_opt_str (refresh_token (token_of_row example_row))"
    by (simp add: truthy_opt_str_def token_of_row_def example_row_def)
  have m: "\<exists>st'. get_token example_tm_env empty_tm_state ''u1'' ''meta'' True
            = Some (Inr (Some (token_of_row example_row)), st')"
    by (rule get_token_refresh_failure [OF ex_stored ex_expired t ex_miss])
       (simp add: ex_refresh_meta)
  have g: "\<exists>st'. get_token example_tm_env empty_tm_state ''u1'' ''google'' True
            = Some (Inr (Some (token_of_row example_row)), st')"
    by (rule get_token_refresh_failure [OF ex_stored ex_expired t ex_miss])
       (simp add: ex_refresh_google)
  from m g show ?thesis by simp
qed

text \<open>
  The other outcome of the refresh: when it yields a new credential, the call reaches
  \<open>store_token\<close> with the lock held and does not return.
\<close>

lemma get_token_refresh_success_never_returns:
  assumes "stored_credential env st user_id pf = Some token"
    and "is_expired (now_load_check env) token default_buffer_seconds = Inr True"
    and "truthy_opt_str (refresh_token token)"
    and "cache_miss env st user_id pf"
    and "refresh_token_call env pf token = Inr (Some refreshed)"
  shows "get_token env st user_id pf True = None"
  using get_token_after_miss [OF assms(4) assms(1), of True] assms(2,3,5) by auto

text \<open>
  A database that answers the lookup of the user with an empty value: \<open>_get_user_uuid\<close>
  gives \<open>None\<close>, and \<open>get_token\<close> returns \<open>None\<close> without reading the \<open>tokens\<close> table.
\<close>

lemma get_token_empty_user_id:
  "get_token (example_tm_env\<lparr>fetchval_user := \<lambda>u. Inr (Some [])\<rparr>) empty_tm_state ''u1'' ''meta'' True
     = Some (Inr None, \<lparr>cache = Map.empty, has_db = True\<rparr>)"
  by (simp add: get_token_def get_db_def get_user_uuid_def cache_get_def truthy_opt_str_def
      example_tm_env_def empty_tm_state_def)

section \<open>Properties of \<open>Decimal\<close> and of \<open>convert_to_usd\<close>\<close>

lemma ndigits_pos: "0 < ndigits n"
  by (subst ndigits.simps) simp

lemma ndigits_le: "n < 10 ^ k \<Longrightarrow> 0 < k \<Longrightarrow> ndigits n \<le> k"
proof (induction k arbitrary: n)
  case 0
  then show ?case by simp
next
  case (Suc k)
  show ?case
  proof (cases "n < 10")
    case True
    then show ?thesis by (subst ndigits.simps) simp
  next
    case False
    then have k: "0 < k" using Suc.prems by (cases k) auto
    have "n div 10 < 10 ^ k" using Suc.prems by (simp add: less_mult_imp_div_less mult.commute)
    then have "ndigits (n div 10) \<le> k" using Suc.IH k by blast
    then show ?thesis using False by (subst ndigits.simps) simp
  qed
qed





lemma dec_fix_id:
  assumes "c \<noteq> 0" "ndigits c \<le> 28" "Etiny \<le> e" "int (ndigits c) + e - 28 \<le> Etop"
  shows "dec_fix s c e = Inr (Dec s c e)"
proof -
  have 1: "\<not> Etop < int (ndigits c) + e - int prec"
    using assms(4) by (simp add: prec_def)
  have 2: "\<not> e < max (int (ndigits c) + e - int prec) Etiny"
    using assms(2,3) by (simp add: prec_def)
  show ?thesis
    unfolding dec_fix_def Let_def using assms(1) 1 2 by (simp only: if_False)
qed

lemma dec_fix_zero: "Etiny \<le> e \<Longrightarrow> e \<le> Emax \<Longrightarrow> dec_fix s 0 e = Inr (Dec s 0 e)"
  by (simp add: dec_fix_def)























section \<open>Properties of the normalizers\<close>

lemma post_init_Inr:
  assumes "post_init i p pid ty a cur ts sku q cpu camp cust m = Inr tx"
  shows "\<exists>c. cur = PStr c \<and> currency tx = c \<and> amount tx = a \<and> tx_type tx = ty \<and>
             timestamp tx = ts \<and> tx_id tx = i \<and>
             amount_usd tx = (if py_upper c = ''USD'' then Some a else None)"
  using assms by (auto simp: post_init_def split: pyval.splits)

lemma shopify_normalize_Inr:
  assumes "shopify_normalize rt raw = Inr tx"
  shows "\<exists>data amount0 cur.
           raw = PDict data \<and>
           Decimal (py_str (shopify_amount_str data)) = Inr amount0 \<and>
           refund_magnitude (shopify_is_refund data) amount0 = Inr (amount tx) \<and>
           iso_timestamp rt (py_or (dict_get data ''created_at'') (dict_get data ''processed_at''))
             = Inr (timestamp tx) \<and>
           dict_get_default data ''currency'' (PStr ''USD'') = PStr cur \<and>
           currency tx = cur \<and>
           tx_type tx = (if shopify_is_refund data then REFUND else ORDER) \<and>
           amount_usd tx = (if py_upper cur = ''USD'' then Some (amount tx) else None)"
proof -
  from assms obtain data where raw: "raw = PDict data"
    by (cases raw) (simp_all add: shopify_normalize_def)
  from assms show ?thesis
    unfolding shopify_normalize_def raw Let_def
    by (auto split: sum.splits prod.splits dest!: post_init_Inr)
qed

lemma meta_normalize_Inr:
  assumes "meta_normalize rt raw = Inr tx"
  shows "\<exists>data cur.
           raw = PDict data \<and>
           dict_get_default data ''currency'' (PStr ''USD'') = PStr cur \<and>
           currency tx = cur \<and> tx_type tx = AD_SPEND \<and>
           amount_usd tx = (if py_upper cur = ''USD'' then Some (amount tx) else None)"
proof -
  from assms obtain data where raw: "raw = PDict data"
    by (cases raw) (simp_all add: meta_normalize_def)
  from assms show ?thesis
    unfolding meta_normalize_def raw Let_def
    by (auto split: sum.splits prod.splits dest!: post_init_Inr)
qed

lemma google_normalize_Inr:
  assumes "google_normalize rt raw = Inr tx"
  shows "\<exists>data cur.
           raw = PDict data \<and>
           google_amount data = Inr (amount tx) \<and>
           dict_get_default data ''currency_code'' (PStr ''USD'') = PStr cur \<and>
           currency tx = cur \<and> tx_type tx = AD_SPEND \<and>
           amount_usd tx = (if py_upper cur = ''USD'' then Some (amount tx) else None)"
proof -
  from assms obtain data where raw: "raw = PDict data"
    by (cases raw) (simp_all add: google_normalize_def)
  from assms show ?thesis
    unfolding google_normalize_def raw Let_def
    by (auto split: sum.splits prod.splits dest!: post_init_Inr)
qed

lemmas normalize_eval_defs =
  shopify_normalize_def shopify_is_refund_def shopify_amount_str_def refund_magnitude_def
  meta_normalize_def google_normalize_def google_amount_def google_cost_def or_nested_def
  dict_get_def dict_get_default_def dict_has_def py_or_def py_str_def py_get_def py_len_def
  py_first_def first_line_item_def iso_timestamp_def date_timestamp_def replace_Z_def
  post_init_def str_if_truthy_def dec_lt_zero_def dec_abs_def py_upper_def int_str_def

lemma eur_order_normalized:
  "shopify_normalize example_runtime eur_order =
     Inr \<lparr>tx_id = ''0b0e7c1a-5d1f-4c53-9d53-0a4f3a1f6c11'', platform = ''shopify'',
          platform_id = ''ord_2'', tx_type = ORDER, amount = Dec False 1000 (- 2),
          currency = ''EUR'',
          timestamp = Datetime \<lparr>micros = unix_epoch_micros + 1000, tzoffset = None\<rparr>,
          amount_usd = None, sku_id = PNone, quantity = PNone, cost_per_unit = None,
          campaign_id = None, customer_id = None,
          metadata = [(''financial_status'', PStr ''paid''), (''order_number'', PNone),
                      (''line_items_count'', PInt 0)]\<rparr>"
  by (simp add: eur_order_def example_runtime_def normalize_eval_defs eval_defs)

lemma usd_order_normalized:
  "shopify_normalize example_runtime usd_order =
     Inr \<lparr>tx_id = ''0b0e7c1a-5d1f-4c53-9d53-0a4f3a1f6c11'', platform = ''shopify'',
          platform_id = ''ord_1'', tx_type = ORDER, amount = Dec False 4999 (- 2),
          currency = ''USD'',
          timestamp = Datetime \<lparr>micros = 63840911400000000, tzoffset = Some 0\<rparr>,
          amount_usd = Some (Dec False 4999 (- 2)), sku_id = PStr ''ABC'', quantity = PInt 2,
          cost_per_unit = Some (Dec False 1000 (- 2)),
          campaign_id = None, customer_id = None,
          metadata = [(''financial_status'', PStr ''paid''), (''order_number'', PNone),
                      (''line_items_count'', PInt 1)]\<rparr>"
  by (simp add: usd_order_def example_runtime_def normalize_eval_defs eval_defs)

text \<open>
  C1 (as amended). Whatever adapter and record: when \<open>normalize\<close> returns a transaction, its
  \<open>amount_usd\<close> is the amount itself if the currency reads USD in upper case, and \<open>None\<close>
  otherwise. No adapter converts.
\<close>

theorem normalize_amount_usd:
  assumes "normalize n rt raw = Inr tx"
  shows "amount_usd tx = (if py_upper (currency tx) = ''USD'' then Some (amount tx) else None)"
proof (cases n)
  case ShopifyNormalizer
  with assms show ?thesis by (auto dest!: shopify_normalize_Inr)
next
  case MetaNormalizer
  with assms show ?thesis by (auto dest!: meta_normalize_Inr)
next
  case GoogleNormalizer
  with assms show ?thesis by (auto dest!: google_normalize_Inr)
qed

theorem normalize_amount_usd_witness:
  "\<exists>tx. normalize ShopifyNormalizer example_runtime usd_order = Inr tx \<and>
        amount_usd tx = Some (Dec False 4999 (- 2))"
proof -
  obtain tx where tx: "normalize ShopifyNormalizer example_runtime usd_order = Inr tx"
    and c: "currency tx = ''USD''" and a: "amount tx = Dec False 4999 (- 2)"
    by (simp add: usd_order_normalized)
  have "py_upper ''USD'' = ''USD''" by (simp add: py_upper_def char_of_def bit_Suc_0_iff)
  with normalize_amount_usd [OF tx] c a have "amount_usd tx = Some (Dec False 4999 (- 2))"
    by simp
  with tx show ?thesis by blast
qed

theorem normalize_non_usd_counterexample:
  "normalize ShopifyNormalizer example_runtime eur_order =
     Inr \<lparr>tx_id = ''0b0e7c1a-5d1f-4c53-9d53-0a4f3a1f6c11'', platform = ''shopify'',
          platform_id = ''ord_2'', tx_type = ORDER, amount = Dec False 1000 (- 2),
          currency = ''EUR'',
          timestamp = Datetime \<lparr>micros = unix_epoch_micros + 1000, tzoffset = None\<rparr>,
          amount_usd = None, sku_id = PNone, quantity = PNone, cost_per_unit = None,
          campaign_id = None, customer_id = None,
          metadata = [(''financial_status'', PStr ''paid''), (''order_number'', PNone),
                      (''line_items_count'', PInt 0)]\<rparr>"
  by (simp add: eur_order_normalized)

lemma refund_magnitude_nonneg:
  assumes "refund_magnitude True d = Inr a"
  shows "dec_lt_zero a = Inr False"
proof (cases d)
  case (Dec s c e)
  show ?thesis
  proof (cases "s \<and> c \<noteq> 0")
    case True
    with assms Dec have "dec_fix False c e = Inr a"
      by (simp add: refund_magnitude_def dec_lt_zero_def dec_abs_def)
    then obtain c' e' where "a = Dec False c' e'"
      by (auto simp: dec_fix_def Let_def split: if_splits)
    then show ?thesis by (simp add: dec_lt_zero_def)
  next
    case False
    with assms Dec have "a = Dec s c e"
      by (auto simp: refund_magnitude_def dec_lt_zero_def)
    with False show ?thesis by (auto simp: dec_lt_zero_def)
  qed
next
  case (DInf s)
  with assms show ?thesis
    by (cases s) (auto simp: refund_magnitude_def dec_lt_zero_def dec_abs_def)
next
  case (DNaN sg)
  with assms show ?thesis by (simp add: refund_magnitude_def dec_lt_zero_def)
qed

lemma refund_magnitude_abs:
  assumes "refund_magnitude True (Dec s c e) = Inr a"
    and "c < 10 ^ 28" and "Etiny \<le> e" and "e \<le> Etop"
  shows "a = Dec (s \<and> c = 0) c e"
proof (cases "s \<and> c \<noteq> 0")
  case True
  have "ndigits c \<le> 28" using assms(2) by (rule ndigits_le) simp
  then have "dec_fix False c e = Inr (Dec False c e)"
    using True assms(3,4) by (intro dec_fix_id) simp_all
  with assms(1) True show ?thesis
    by (simp add: refund_magnitude_def dec_lt_zero_def dec_abs_def)
next
  case False
  with assms(1) show ?thesis by (auto simp: refund_magnitude_def dec_lt_zero_def)
qed

text \<open>
  C9 (as amended). When the commerce adapter returns a transaction, its type is \<open>refund\<close>
  exactly if \<open>financial_status\<close> is \<open>"refunded"\<close> or \<open>kind\<close> is \<open>"refund"\<close>, and \<open>order\<close>
  otherwise. A refund's amount is never below zero, and it is the absolute value of the
  parsed total (\<open>total_price\<close>, else \<open>amount\<close>, else 0) when that total is a finite decimal
  within the context (at most 28 digits, exponent in range). An order's amount is the
  parsed total itself.
\<close>

theorem shopify_refund_normalization:
  assumes "shopify_normalize rt (PDict data) = Inr tx"
  shows "tx_type tx =
           (if dict_get_default data ''financial_status'' (PStr ''paid'') = PStr ''refunded'' \<or>
               dict_get data ''kind'' = PStr ''refund''
            then REFUND else ORDER) \<and>
         (tx_type tx = REFUND \<longrightarrow> dec_lt_zero (amount tx) = Inr False) \<and>
         (tx_type tx = REFUND \<and> Decimal (py_str (shopify_amount_str data)) = Inr (Dec s c e) \<and>
          c < 10 ^ 28 \<and> Etiny \<le> e \<and> e \<le> Etop \<longrightarrow>
            is_finite (amount tx) \<and> dec_val (amount tx) = \<bar>dec_val (Dec s c e)\<bar>) \<and>
         (tx_type tx = ORDER \<longrightarrow> Decimal (py_str (shopify_amount_str data)) = Inr (amount tx))"
proof -
  from shopify_normalize_Inr [OF assms] obtain amount0 where
    d: "Decimal (py_str (shopify_amount_str data)) = Inr amount0"
    and m: "refund_magnitude (shopify_is_refund data) amount0 = Inr (amount tx)"
    and t: "tx_type tx = (if shopify_is_refund data then REFUND else ORDER)"
    by auto
  have 1: "tx_type tx =
           (if dict_get_default data ''financial_status'' (PStr ''paid'') = PStr ''refunded'' \<or>
               dict_get data ''kind'' = PStr ''refund''
            then REFUND else ORDER)"
    using t by (simp add: shopify_is_refund_def)
  have 2: "dec_lt_zero (amount tx) = Inr False" if "tx_type tx = REFUND"
  proof -
    from that t have "shopify_is_refund data" by (simp split: if_splits)
    with m show ?thesis by (auto dest: refund_magnitude_nonneg)
  qed
  have 3: "is_finite (amount tx) \<and> dec_val (amount tx) = \<bar>dec_val (Dec s c e)\<bar>"
    if "tx_type tx = REFUND" "Decimal (py_str (shopify_amount_str data)) = Inr (Dec s c e)"
       "c < 10 ^ 28" "Etiny \<le> e" "e \<le> Etop"
  proof -
    from that(1) t have r: "shopify_is_refund data" by (simp split: if_splits)
    from that(2) d have "amount0 = Dec s c e" by simp
    with m r have "refund_magnitude True (Dec s c e) = Inr (amount tx)" by simp
    from refund_magnitude_abs [OF this that(3,4,5)] have "amount tx = Dec (s \<and> c = 0) c e" .
    then show ?thesis by (auto simp: is_finite_def dec_val_def abs_mult)
  qed
  have 4: "Decimal (py_str (shopify_amount_str data)) = Inr (amount tx)" if "tx_type tx = ORDER"
  proof -
    from that t have "\<not> shopify_is_refund data" by (simp split: if_splits)
    with m d show ?thesis by (simp add: refund_magnitude_def)
  qed
  from 1 2 3 4 show ?thesis by blast
qed

lemma refunded_order_normalized:
  "\<exists>tx. shopify_normalize example_runtime refunded_order = Inr tx"
  by (simp add: refunded_order_def example_runtime_def normalize_eval_defs eval_defs
      dec_fix_def ndigits.simps prec_def Etop_def Etiny_def Emax_def Emin_def)

lemma refunded_order_total:
  "Decimal (py_str (shopify_amount_str [(''id'', PStr ''ord_3''), (''total_price'', PStr ''-25.50''),
            (''financial_status'', PStr ''refunded'')])) = Inr (Dec True 2550 (- 2))"
  by (simp add: normalize_eval_defs eval_defs)

theorem shopify_refund_normalization_witness:
  "\<exists>tx. shopify_normalize example_runtime refunded_order = Inr tx \<and>
        tx_type tx = REFUND \<and> dec_lt_zero (amount tx) = Inr False \<and>
        dec_val (amount tx) = 2550 / 100"
proof -
  let ?data = "[(''id'', PStr ''ord_3''), (''total_price'', PStr ''-25.50''),
            (''financial_status'', PStr ''refunded'')]"
  from refunded_order_normalized obtain tx where
    tx: "shopify_normalize example_runtime (PDict ?data) = Inr tx"
    by (auto simp: refunded_order_def)
  have b: "(2550::nat) < 10 ^ 28" "Etiny \<le> - 2" "- 2 \<le> Etop"
    by (simp_all add: Etiny_def Etop_def Emin_def Emax_def prec_def)
  have ty: "tx_type tx = REFUND"
    using shopify_refund_normalization [OF tx] by (simp add: dict_get_default_def)
  with shopify_refund_normalization [OF tx, of True 2550 "- 2"] refunded_order_total b
  have "dec_lt_zero (amount tx) = Inr False"
    and "dec_val (amount tx) = \<bar>dec_val (Dec True 2550 (- 2))\<bar>"
    by simp_all
  moreover have "\<bar>dec_val (Dec True 2550 (- 2))\<bar> = 2550 / 100" by (simp add: dec_val_def)
  ultimately show ?thesis using tx ty by (auto simp: refunded_order_def)
qed

theorem shopify_kind_refund_counterexample:
  "shopify_normalize example_runtime kind_refund_order =
     Inr \<lparr>tx_id = ''0b0e7c1a-5d1f-4c53-9d53-0a4f3a1f6c11'', platform = ''shopify'',
          platform_id = ''ord_4'', tx_type = REFUND, amount = Dec False 5 0,
          currency = ''USD'',
          timestamp = Datetime \<lparr>micros = unix_epoch_micros + 1000, tzoffset = None\<rparr>,
          amount_usd = Some (Dec False 5 0), sku_id = PNone, quantity = PNone,
          cost_per_unit = None, campaign_id = None, customer_id = None,
          metadata = [(''financial_status'', PStr ''paid''), (''order_number'', PNone),
                      (''line_items_count'', PInt 0)]\<rparr>"
  by (simp add: kind_refund_order_def example_runtime_def normalize_eval_defs eval_defs)

lemma normalize_batch_from_all:
  assumes "\<forall>i<length records. \<exists>tx. normalize n (rts (k + i)) (records ! i) = Inr tx"
  shows "\<exists>txs. normalize_batch_from n rts k records = Inr txs \<and> length txs = length records \<and>
               (\<forall>i<length records. normalize n (rts (k + i)) (records ! i) = Inr (txs ! i))"
  using assms
proof (induction records arbitrary: k)
  case Nil
  then show ?case by simp
next
  case (Cons r records)
  from Cons.prems have "\<exists>tx. normalize n (rts (k + 0)) ((r # records) ! 0) = Inr tx" by blast
  then obtain tx where tx: "normalize n (rts k) r = Inr tx" by auto
  have "\<forall>i<length records. \<exists>tx. normalize n (rts (Suc k + i)) (records ! i) = Inr tx"
  proof (intro allI impI)
    fix i assume "i < length records"
    then have "Suc i < length (r # records)" by simp
    with Cons.prems have "\<exists>tx. normalize n (rts (k + Suc i)) ((r # records) ! Suc i) = Inr tx"
      by blast
    then show "\<exists>tx. normalize n (rts (Suc k + i)) (records ! i) = Inr tx" by simp
  qed
  from Cons.IH [OF this] obtain txs where
    txs: "normalize_batch_from n rts (Suc k) records = Inr txs" "length txs = length records"
    and each: "\<forall>i<length records. normalize n (rts (Suc k + i)) (records ! i) = Inr (txs ! i)"
    by blast
  have "\<forall>i<length (r # records). normalize n (rts (k + i)) ((r # records) ! i) = Inr ((tx # txs) ! i)"
  proof (intro allI impI)
    fix i assume i: "i < length (r # records)"
    show "normalize n (rts (k + i)) ((r # records) ! i) = Inr ((tx # txs) ! i)"
    proof (cases i)
      case 0
      with tx show ?thesis by simp
    next
      case (Suc j)
      with i each show ?thesis by simp
    qed
  qed
  with tx txs show ?case by simp
qed

lemma normalize_batch_from_first_error:
  assumes "j < length records"
    and "normalize n (rts (k + j)) (records ! j) = Inl e"
    and "\<forall>i<j. \<exists>tx. normalize n (rts (k + i)) (records ! i) = Inr tx"
  shows "normalize_batch_from n rts k records = Inl e"
  using assms
proof (induction records arbitrary: k j)
  case Nil
  then show ?case by simp
next
  case (Cons r records)
  show ?case
  proof (cases j)
    case 0
    with Cons.prems(2) show ?thesis by simp
  next
    case (Suc j')
    from Cons.prems(3) Suc have "\<exists>tx. normalize n (rts (k + 0)) ((r # records) ! 0) = Inr tx"
      by blast
    then obtain tx where tx: "normalize n (rts k) r = Inr tx" by auto
    have a: "j' < length records" using Cons.prems(1) Suc by simp
    have b: "normalize n (rts (Suc k + j')) (records ! j') = Inl e"
      using Cons.prems(2) Suc by simp
    have c: "\<forall>i<j'. \<exists>tx. normalize n (rts (Suc k + i)) (records ! i) = Inr tx"
    proof (intro allI impI)
      fix i assume "i < j'"
      then have "Suc i < j" using Suc by simp
      with Cons.prems(3) have "\<exists>tx. normalize n (rts (k + Suc i)) ((r # records) ! Suc i) = Inr tx"
        by blast
      then show "\<exists>tx. normalize n (rts (Suc k + i)) (records ! i) = Inr tx" by simp
    qed
    from Cons.IH [OF a b c] tx show ?thesis by simp
  qed
qed

lemma malformed_order_normalized:
  "shopify_normalize example_runtime malformed_order = Inl InvalidOperation"
  by (simp add: malformed_order_def example_runtime_def normalize_eval_defs eval_defs)

lemma kind_refund_order_normalized:
  "\<exists>tx. shopify_normalize example_runtime kind_refund_order = Inr tx"
  by (simp add: kind_refund_order_def example_runtime_def normalize_eval_defs eval_defs)

text \<open>
  C3 (as amended). \<open>normalize_batch\<close> is all or nothing: when every record of the list
  normalizes, it returns the transactions, one per record and in order; when some record
  raises, the batch raises the error of the first such record and returns no transaction
  at all.
\<close>

theorem normalize_batch_all_or_nothing:
  "((\<forall>i<length records. \<exists>tx. normalize n (rts i) (records ! i) = Inr tx) \<longrightarrow>
      (\<exists>txs. normalize_batch n rts records = Inr txs \<and> length txs = length records \<and>
             (\<forall>i<length records. normalize n (rts i) (records ! i) = Inr (txs ! i)))) \<and>
   (j < length records \<and> normalize n (rts j) (records ! j) = Inl e \<and>
    (\<forall>i<j. \<exists>tx. normalize n (rts i) (records ! i) = Inr tx) \<longrightarrow>
      normalize_batch n rts records = Inl e)"
proof (intro conjI impI)
  assume "\<forall>i<length records. \<exists>tx. normalize n (rts i) (records ! i) = Inr tx"
  then have "\<forall>i<length records. \<exists>tx. normalize n (rts (0 + i)) (records ! i) = Inr tx" by simp
  from normalize_batch_from_all [OF this]
  show "\<exists>txs. normalize_batch n rts records = Inr txs \<and> length txs = length records \<and>
             (\<forall>i<length records. normalize n (rts i) (records ! i) = Inr (txs ! i))"
    by (simp add: normalize_batch_def)
next
  assume a: "j < length records \<and> normalize n (rts j) (records ! j) = Inl e \<and>
    (\<forall>i<j. \<exists>tx. normalize n (rts i) (records ! i) = Inr tx)"
  then have "normalize_batch_from n rts 0 records = Inl e"
    by (intro normalize_batch_from_first_error [where j = j]) simp_all
  then show "normalize_batch n rts records = Inl e" by (simp add: normalize_batch_def)
qed

theorem normalize_batch_all_or_nothing_witness:
  "(\<exists>txs. normalize_batch ShopifyNormalizer (\<lambda>i. example_runtime) [usd_order, eur_order] = Inr txs \<and>
          length txs = 2) \<and>
   normalize_batch ShopifyNormalizer (\<lambda>i. example_runtime) [usd_order, malformed_order, eur_order]
     = Inl InvalidOperation"
proof -
  let ?rts = "\<lambda>i::nat. example_runtime"
  have h1: "\<forall>i<length [usd_order, eur_order].
          \<exists>tx. normalize ShopifyNormalizer (?rts i) ([usd_order, eur_order] ! i) = Inr tx"
    by (simp add: less_Suc_eq usd_order_normalized eur_order_normalized)
  from normalize_batch_all_or_nothing
         [where records = "[usd_order, eur_order]" and n = ShopifyNormalizer and rts = ?rts,
          THEN conjunct1, THEN mp, OF h1]
  have 1: "\<exists>txs. normalize_batch ShopifyNormalizer ?rts [usd_order, eur_order] = Inr txs \<and>
          length txs = 2"
    by auto
  have h2: "(1::nat) < length [usd_order, malformed_order, eur_order] \<and>
        normalize ShopifyNormalizer (?rts 1) ([usd_order, malformed_order, eur_order] ! 1)
          = Inl InvalidOperation \<and>
        (\<forall>i<1. \<exists>tx. normalize ShopifyNormalizer (?rts i)
                       ([usd_order, malformed_order, eur_order] ! i) = Inr tx)"
    by (simp add: usd_order_normalized malformed_order_normalized)
  from normalize_batch_all_or_nothing
         [where records = "[usd_order, malformed_order, eur_order]" and n = ShopifyNormalizer
            and rts = ?rts and j = 1 and e = InvalidOperation,
          THEN conjunct2, THEN mp, OF h2]
  have 2: "normalize_batch ShopifyNormalizer ?rts [usd_order, malformed_order, eur_order]
     = Inl InvalidOperation" .
  from 1 2 show ?thesis by blast
qed

theorem normalize_batch_aborts_counterexample:
  "length five_orders = 5 \<and>
   \<not> isl (normalize ShopifyNormalizer example_runtime (five_orders ! 0)) \<and>
   \<not> isl (normalize ShopifyNormalizer example_runtime (five_orders ! 1)) \<and>
   \<not> isl (normalize ShopifyNormalizer example_runtime (five_orders ! 3)) \<and>
   \<not> isl (normalize ShopifyNormalizer example_runtime (five_orders ! 4)) \<and>
   normalize ShopifyNormalizer example_runtime (five_orders ! 2) = Inl InvalidOperation \<and>
   normalize_batch ShopifyNormalizer (\<lambda>i. example_runtime) five_orders = Inl InvalidOperation"
proof -
  from refunded_order_normalized obtain t3 where
    t3: "shopify_normalize example_runtime refunded_order = Inr t3" by blast
  from kind_refund_order_normalized obtain t4 where
    t4: "shopify_normalize example_runtime kind_refund_order = Inr t4" by blast
  show ?thesis
    by (simp add: five_orders_def normalize_batch_def usd_order_normalized eur_order_normalized
        malformed_order_normalized t3 t4)
qed

lemmas decimal_context_defs = dec_fix_def ndigits.simps strip_zeros.simps prec_def Etop_def
  Etiny_def Emax_def Emin_def check_nans_def dec_div_def

lemma google_amount_micros_example:
  "google_amount [(''cost_micros'', PStr ''1500000'')] = Inr (Dec False 15 (- 1))"
  by (simp add: normalize_eval_defs eval_defs decimal_context_defs)

lemma google_amount_direct_example:
  "google_amount [(''cost'', PStr ''5.00'')] = Inr (Dec False 500 (- 2))"
  by (simp add: normalize_eval_defs eval_defs decimal_context_defs)

lemma google_amount_zero_micros_example:
  "google_amount [(''cost_micros'', PInt 0), (''cost'', PStr ''5.00'')] = Inr (Dec False 5 (- 6))"
  by (simp add: normalize_eval_defs eval_defs decimal_context_defs)

lemma strip_zeros_result:
  "strip_zeros c ex ideal = (c', e') \<Longrightarrow> \<exists>k. c = c' * 10 ^ k \<and> e' = ex + int k"
proof (induction c ex ideal rule: strip_zeros.induct)
  case (1 coeff ex ideal_exp)
  show ?case
  proof (cases "ex < ideal_exp \<and> coeff mod 10 = 0")
    case True
    with "1.prems" have "strip_zeros (coeff div 10) (ex + 1) ideal_exp = (c', e')"
      by (subst (asm) strip_zeros.simps) simp
    from "1.IH" [OF True this] obtain k where k: "coeff div 10 = c' * 10 ^ k" "e' = ex + 1 + int k"
      by blast
    from True have "coeff = coeff div 10 * 10" by auto
    with k have "coeff = c' * 10 ^ Suc k \<and> e' = ex + int (Suc k)" by simp
    then show ?thesis by blast
  next
    case False
    with "1.prems" have "c' = coeff \<and> e' = ex" by (subst (asm) strip_zeros.simps) auto
    then have "coeff = c' * 10 ^ 0 \<and> e' = ex + int 0" by simp
    then show ?thesis by blast
  qed
qed

lemma strip_zeros_le:
  "ex \<le> ideal \<Longrightarrow> snd (strip_zeros c ex ideal) \<le> ideal"
proof (induction c ex ideal rule: strip_zeros.induct)
  case (1 coeff ex ideal_exp)
  show ?case
  proof (cases "ex < ideal_exp \<and> coeff mod 10 = 0")
    case True
    then have "snd (strip_zeros (coeff div 10) (ex + 1) ideal_exp) \<le> ideal_exp"
      by (intro "1.IH") simp_all
    with True show ?thesis by (subst strip_zeros.simps) simp
  next
    case False
    with "1.prems" show ?thesis by (subst strip_zeros.simps) auto
  qed
qed

lemma strip_zeros_skip:
  "ex + int m \<le> ideal \<Longrightarrow> strip_zeros (c * 10 ^ m) ex ideal = strip_zeros c (ex + int m) ideal"
proof (induction m arbitrary: ex)
  case 0
  then show ?case by simp
next
  case (Suc m)
  have "strip_zeros (c * 10 ^ Suc m) ex ideal = strip_zeros (c * 10 ^ m) (ex + 1) ideal"
    using Suc.prems by (subst strip_zeros.simps) simp
  also have "\<dots> = strip_zeros c (ex + 1 + int m) ideal"
    using Suc.prems by (intro Suc.IH) simp
  finally show ?case by (simp add: add.assoc)
qed

lemma ndigits_million: "ndigits 1000000 = 7"
  by (simp add: ndigits.simps)

text \<open>
  Dividing a finite decimal within the context by \<open>Decimal("1000000")\<close> is exact.
\<close>

lemma dec_div_million:
  assumes "c < 10 ^ 28" and "Etiny \<le> e - 6" and "e \<le> Etop"
  shows "\<exists>c' e'. dec_div (Dec s c e) (Dec False 1000000 0) = Inr (Dec s c' e') \<and>
                 dec_val (Dec s c' e') = dec_val (Dec s c e) / 1000000"
proof (cases "c = 0")
  case True
  have "e \<le> Emax" using assms(3) by (simp add: Etop_def Emax_def prec_def)
  then have "dec_fix s 0 e = Inr (Dec s 0 e)" using assms(2) by (intro dec_fix_zero) simp_all
  with True have "dec_div (Dec s c e) (Dec False 1000000 0) = Inr (Dec s 0 e)"
    by (simp add: dec_div_def check_nans_def)
  with True show ?thesis by (simp add: dec_val_def)
next
  case False
  have nd: "ndigits c \<le> 28" using assms(1) by (rule ndigits_le) simp
  have np: "0 < ndigits c" by (rule ndigits_pos)
  define m where "m = 30 - ndigits c"
  define shift where "shift = int (ndigits 1000000) - int (ndigits c) + int prec + 1"
  have shift: "shift = int (m + 6)" using nd by (simp add: shift_def m_def ndigits_million prec_def)
  have "nat (int m + 6) = m + 6" by simp
  then have num: "c * 10 ^ nat (int m + 6) = c * 10 ^ m * 1000000" by (simp add: power_add)
  have q: "c * 10 ^ nat (int m + 6) div 1000000 = c * 10 ^ m"
    and r: "c * 10 ^ nat (int m + 6) mod 1000000 = 0"
    by (simp_all only: num) simp_all
  obtain c' e' where sz: "strip_zeros c (e - 6) e = (c', e')" by (cases "strip_zeros c (e - 6) e")
  have "strip_zeros (c * 10 ^ m) (e - 0 - shift) (e - 0) = strip_zeros c (e - shift + int m) e"
    using strip_zeros_skip [of "e - shift" m e c] by (simp add: shift)
  then have sz': "strip_zeros (c * 10 ^ m) (e - 0 - shift) (e - 0) = (c', e')"
    using sz by (simp add: shift)
  from strip_zeros_result [OF sz] obtain k where k: "c = c' * 10 ^ k" "e' = e - 6 + int k" by blast
  from k(1) False have c'0: "c' \<noteq> 0" by auto
  have "c' \<le> c" using k(1) by simp
  with assms(1) have "c' < 10 ^ 28" by simp
  then have nd': "ndigits c' \<le> 28" by (rule ndigits_le) simp
  have e'_le: "e' \<le> e" using strip_zeros_le [of "e - 6" e c] sz by simp
  have e'_ge: "Etiny \<le> e'" using k(2) assms(2) by simp
  have fx: "dec_fix s c' e' = Inr (Dec s c' e')"
    using c'0 nd' e'_ge e'_le assms(3) by (intro dec_fix_id) simp_all
  have "dec_div (Dec s c e) (Dec False 1000000 0) = Inr (Dec s c' e')"
    unfolding dec_div_def
    using False fx sz'
    by (simp add: check_nans_def Let_def shift_def [symmetric] shift q r)
  moreover have "dec_val (Dec s c' e') = dec_val (Dec s c e) / 1000000"
  proof -
    have "(10::rat) powi e' = 10 powi e * 10 powi int k / 1000000"
      by (simp add: k(2) power_int_add power_int_diff)
    then show ?thesis by (simp add: dec_val_def k(1))
  qed
  ultimately show ?thesis by blast
qed

lemma google_amount_scaling:
  "(dict_has data ''cost_micros'' \<and> truthy (dict_get data ''cost_micros'') \<and>
    Decimal (py_str (dict_get data ''cost_micros'')) = Inr (Dec s c e) \<and>
    c < 10 ^ 28 \<and> Etiny \<le> e - 6 \<and> e \<le> Etop \<longrightarrow>
      (\<exists>a. google_amount data = Inr a \<and> is_finite a \<and>
           dec_val a = dec_val (Dec s c e) / 1000000)) \<and>
   (\<not> dict_has data ''cost_micros'' \<longrightarrow>
      google_amount data = Decimal (py_str (py_or (dict_get data ''cost'') (PStr ''0''))))"
proof (intro conjI impI)
  assume a: "dict_has data ''cost_micros'' \<and> truthy (dict_get data ''cost_micros'') \<and>
    Decimal (py_str (dict_get data ''cost_micros'')) = Inr (Dec s c e) \<and>
    c < 10 ^ 28 \<and> Etiny \<le> e - 6 \<and> e \<le> Etop"
  then have "google_amount data = dec_div (Dec s c e) (Dec False 1000000 0)"
    by (simp add: google_amount_def google_cost_def py_or_def)
  moreover from a obtain c' e' where
    "dec_div (Dec s c e) (Dec False 1000000 0) = Inr (Dec s c' e')"
    "dec_val (Dec s c' e') = dec_val (Dec s c e) / 1000000"
    using dec_div_million [of c e s] by blast
  ultimately show "\<exists>a. google_amount data = Inr a \<and> is_finite a \<and>
           dec_val a = dec_val (Dec s c e) / 1000000"
    by (simp add: is_finite_def)
next
  assume "\<not> dict_has data ''cost_micros''"
  then show "google_amount data = Decimal (py_str (py_or (dict_get data ''cost'') (PStr ''0'')))"
    by (simp add: google_amount_def google_cost_def py_or_def dict_has_def dict_get_def)
qed

lemma micros_record_normalized:
  "google_normalize example_runtime micros_record =
     Inr \<lparr>tx_id = ''0b0e7c1a-5d1f-4c53-9d53-0a4f3a1f6c11'', platform = ''google'',
          platform_id = ''123456789'', tx_type = AD_SPEND, amount = Dec False 15 (- 1),
          currency = ''USD'',
          timestamp = Datetime \<lparr>micros = 63840873600000000, tzoffset = None\<rparr>,
          amount_usd = Some (Dec False 15 (- 1)), sku_id = PNone, quantity = PNone,
          cost_per_unit = None, campaign_id = Some ''123456789'', customer_id = None,
          metadata = [(''campaign_name'', PStr ''Search Campaign''),
                      (''impressions'', PStr ''5000''), (''clicks'', PStr ''100''),
                      (''conversions'', PStr ''5''), (''cost_micros'', PStr ''1500000'')]\<rparr>"
  by (simp add: micros_record_def example_runtime_def normalize_eval_defs eval_defs
      decimal_context_defs)

lemma direct_cost_record_normalized:
  "google_normalize example_runtime direct_cost_record =
     Inr \<lparr>tx_id = ''0b0e7c1a-5d1f-4c53-9d53-0a4f3a1f6c11'', platform = ''google'',
          platform_id = ''123456789'', tx_type = AD_SPEND, amount = Dec False 500 (- 2),
          currency = ''USD'',
          timestamp = Datetime \<lparr>micros = 63840873600000000, tzoffset = None\<rparr>,
          amount_usd = Some (Dec False 500 (- 2)), sku_id = PNone, quantity = PNone,
          cost_per_unit = None, campaign_id = Some ''123456789'', customer_id = None,
          metadata = [(''campaign_name'', PNone),
                      (''impressions'', PNone), (''clicks'', PNone),
                      (''conversions'', PNone), (''cost_micros'', PNone)]\<rparr>"
  by (simp add: direct_cost_record_def example_runtime_def normalize_eval_defs eval_defs
      decimal_context_defs)

text \<open>
  C8. A record that holds \<open>cost_micros = 0\<close> next to a direct \<open>cost\<close> of 5.00 normalizes to
  the amount 0.000005: the adapter takes the direct cost, because the zero is falsy, and
  then divides it by 1,000,000, because the key \<open>cost_micros\<close> is present. By the claim the
  amount is \<open>cost_micros / 1,000,000 = 0\<close>.
\<close>

theorem google_zero_micros_scales_direct_cost:
  "google_normalize example_runtime zero_micros_record =
     Inr \<lparr>tx_id = ''0b0e7c1a-5d1f-4c53-9d53-0a4f3a1f6c11'', platform = ''google'',
          platform_id = ''123456789'', tx_type = AD_SPEND, amount = Dec False 5 (- 6),
          currency = ''USD'',
          timestamp = Datetime \<lparr>micros = 63840873600000000, tzoffset = None\<rparr>,
          amount_usd = Some (Dec False 5 (- 6)), sku_id = PNone, quantity = PNone,
          cost_per_unit = None, campaign_id = Some ''123456789'', customer_id = None,
          metadata = [(''campaign_name'', PNone),
                      (''impressions'', PNone), (''clicks'', PNone),
                      (''conversions'', PNone), (''cost_micros'', PInt 0)]\<rparr>"
  by (simp add: zero_micros_record_def example_runtime_def normalize_eval_defs eval_defs
      decimal_context_defs)

lemma Decimal_zero: "Decimal ''0'' = Inr (Dec False 0 0)"
  by (simp add: eval_defs)

lemma py_upper_USD: "py_upper ''USD'' = ''USD''"
  by (simp add: py_upper_def char_of_def bit_Suc_0_iff)

lemma shopify_normalize_empty:
  assumes "map_of data ''total_price'' = None" "map_of data ''amount'' = None"
    "map_of data ''currency'' = None" "map_of data ''created_at'' = None"
    "map_of data ''processed_at'' = None" "map_of data ''line_items'' = None"
    "map_of data ''customer'' = None"
  shows "\<exists>tx. shopify_normalize rt (PDict data) = Inr tx"
proof -
  have a: "Decimal (py_str (shopify_amount_str data)) = Inr (Dec False 0 0)"
    using assms(1,2)
    by (simp add: shopify_amount_str_def dict_get_def py_or_def py_str_def Decimal_zero)
  have m: "refund_magnitude b (Dec False 0 0) = Inr (Dec False 0 0)" for b
    by (simp add: refund_magnitude_def dec_lt_zero_def)
  have l: "dict_get_default data ''line_items'' (PList []) = PList []"
    using assms(6) by (simp add: dict_get_default_def)
  have f: "first_line_item (PList []) = Inr (PNone, PNone, None)"
    by (simp add: first_line_item_def)
  have t: "iso_timestamp rt (py_or (dict_get data ''created_at'') (dict_get data ''processed_at''))
             = Inr (Datetime (now rt))"
    using assms(4,5) by (simp add: iso_timestamp_def dict_get_def py_or_def)
  have c: "py_get (dict_get_default data ''customer'' (PDict [])) ''id'' = Inr PNone"
    using assms(7) by (simp add: dict_get_default_def py_get_def dict_get_def)
  have n: "py_len (PList []) = Inr 0" by (simp add: py_len_def)
  have u: "dict_get_default data ''currency'' (PStr ''USD'') = PStr ''USD''"
    using assms(3) by (simp add: dict_get_default_def)
  show ?thesis
    by (simp add: shopify_normalize_def Let_def a m l f t c n u post_init_def)
qed

lemma shopify_normalize_no_amount:
  assumes "shopify_normalize rt (PDict data) = Inr tx"
    and "\<not> dict_has data ''total_price''" "\<not> dict_has data ''amount''"
  shows "amount tx = Dec False 0 0"
proof -
  from shopify_normalize_Inr [OF assms(1)] obtain amount0 where
    d: "Decimal (py_str (shopify_amount_str data)) = Inr amount0"
    and m: "refund_magnitude (shopify_is_refund data) amount0 = Inr (amount tx)"
    by auto
  from assms(2,3) have "shopify_amount_str data = PStr ''0''"
    by (simp add: shopify_amount_str_def dict_has_def dict_get_def py_or_def)
  with d have "amount0 = Dec False 0 0" by (simp add: py_str_def Decimal_zero)
  with m show ?thesis by (simp add: refund_magnitude_def dec_lt_zero_def split: if_splits)
qed

lemma shopify_normalize_no_currency:
  assumes "shopify_normalize rt (PDict data) = Inr tx"
    and "\<not> dict_has data ''currency''"
  shows "currency tx = ''USD'' \<and> amount_usd tx = Some (amount tx)"
proof -
  from shopify_normalize_Inr [OF assms(1)] obtain cur where
    c: "dict_get_default data ''currency'' (PStr ''USD'') = PStr cur" "currency tx = cur"
    and u: "amount_usd tx = (if py_upper cur = ''USD'' then Some (amount tx) else None)"
    by auto
  from assms(2) c(1) have "cur = ''USD''" by (simp add: dict_get_default_def dict_has_def)
  with c u show ?thesis by (simp add: py_upper_USD)
qed

lemma shopify_normalize_no_time:
  assumes "shopify_normalize rt (PDict data) = Inr tx"
    and "\<not> dict_has data ''created_at''" "\<not> dict_has data ''processed_at''"
  shows "timestamp tx = Datetime (now rt)"
proof -
  from shopify_normalize_Inr [OF assms(1)] have
    "iso_timestamp rt (py_or (dict_get data ''created_at'') (dict_get data ''processed_at''))
       = Inr (timestamp tx)"
    by auto
  with assms(2,3) show ?thesis
    by (simp add: iso_timestamp_def dict_has_def dict_get_def py_or_def)
qed

lemma sync_order_unvalidated:
  assumes "normalize ShopifyNormalizer (runtimes env (normalize_calls st)) raw = Inr tx"
  shows "sync_order env u raw (r, st) =
      (case insert_transaction env (st\<lparr>normalize_calls := Suc (normalize_calls st)\<rparr>) u tx of
         (Some e, st2) \<Rightarrow> (Some e, r, st2)
       | (None, st2) \<Rightarrow> (None, r\<lparr>transactions_synced := transactions_synced r + 1\<rparr>, st2))"
  using assms by (simp add: sync_order_def normalize_next_def split: prod.splits option.splits)

lemma getattr_occurred_at:
  "getattr_time tx ''occurred_at'' =
     Inl (missing_attribute ''occurred_at'')"
  by (simp add: getattr_time_def attribute_names_def)

lemma negative_order_normalized:
  "shopify_normalize example_runtime negative_order =
     Inr \<lparr>tx_id = ''0b0e7c1a-5d1f-4c53-9d53-0a4f3a1f6c11'', platform = ''shopify'',
          platform_id = ''ord_6'', tx_type = ORDER, amount = Dec True 5 0,
          currency = ''USD'',
          timestamp = Datetime \<lparr>micros = unix_epoch_micros + 1000, tzoffset = None\<rparr>,
          amount_usd = Some (Dec True 5 0), sku_id = PNone, quantity = PNone,
          cost_per_unit = None, campaign_id = None, customer_id = None,
          metadata = [(''financial_status'', PStr ''paid''), (''order_number'', PNone),
                      (''line_items_count'', PInt 0)]\<rparr>"
  by (simp add: negative_order_def example_runtime_def normalize_eval_defs eval_defs)

lemma negative_order_invalid:
  "validate \<lparr>tx_id = ''0b0e7c1a-5d1f-4c53-9d53-0a4f3a1f6c11'', platform = ''shopify'',
          platform_id = ''ord_6'', tx_type = ORDER, amount = Dec True 5 0,
          currency = ''USD'',
          timestamp = Datetime \<lparr>micros = unix_epoch_micros + 1000, tzoffset = None\<rparr>,
          amount_usd = Some (Dec True 5 0), sku_id = PNone, quantity = PNone,
          cost_per_unit = None, campaign_id = None, customer_id = None,
          metadata = [(''financial_status'', PStr ''paid''), (''order_number'', PNone),
                      (''line_items_count'', PInt 0)]\<rparr>
     = Inl (ValueError ''Amount must be non-negative for type'')"
  by (simp add: validate_def py_strip_def is_space_def dec_lt_zero_def)

lemma negative_order_inserted:
  "insert_transaction example_sync_env (empty_sync_state\<lparr>normalize_calls := Suc 0\<rparr>)
     ''7d444840-9dc0-11d1-b245-5ffdce74fad2''
     \<lparr>tx_id = ''0b0e7c1a-5d1f-4c53-9d53-0a4f3a1f6c11'', platform = ''shopify'',
          platform_id = ''ord_6'', tx_type = ORDER, amount = Dec True 5 0,
          currency = ''USD'',
          timestamp = Datetime \<lparr>micros = unix_epoch_micros + 1000, tzoffset = None\<rparr>,
          amount_usd = Some (Dec True 5 0), sku_id = PNone, quantity = PNone,
          cost_per_unit = None, campaign_id = None, customer_id = None,
          metadata = [(''financial_status'', PStr ''paid''), (''order_number'', PNone),
                      (''line_items_count'', PInt 0)]\<rparr>
   = (Some (missing_attribute ''occurred_at''),
      \<lparr>db_set = True, db_calls = 1, normalize_calls = 1, users = Map.empty, transactions = []\<rparr>)"
  by (simp add: insert_transaction_def service_get_db_def db_call_def example_sync_env_def
      empty_sync_state_def py_float_def dec_truthy_def getattr_occurred_at)

lemma amount_only_order_normalized:
  "shopify_normalize example_runtime amount_only_order =
     Inr \<lparr>tx_id = ''0b0e7c1a-5d1f-4c53-9d53-0a4f3a1f6c11'', platform = ''shopify'',
          platform_id = ''ord_7'', tx_type = ORDER, amount = Dec False 5 0,
          currency = ''USD'',
          timestamp = Datetime \<lparr>micros = unix_epoch_micros + 1000, tzoffset = None\<rparr>,
          amount_usd = Some (Dec False 5 0), sku_id = PNone, quantity = PNone,
          cost_per_unit = None, campaign_id = None, customer_id = None,
          metadata = [(''financial_status'', PStr ''paid''), (''order_number'', PNone),
                      (''line_items_count'', PInt 0)]\<rparr>"
  by (simp add: amount_only_order_def example_runtime_def normalize_eval_defs eval_defs)

text \<open>
  C10 (as amended). The commerce adapter does not reject a record for the fields it lacks: a
  record without \<open>total_price\<close>, \<open>amount\<close>, \<open>currency\<close>, \<open>created_at\<close>, \<open>processed_at\<close>,
  \<open>line_items\<close> and \<open>customer\<close> normalizes. Whenever the adapter returns a transaction: if
  the record has neither \<open>total_price\<close> nor \<open>amount\<close>, the amount is \<open>Decimal("0")\<close>; if it has
  no \<open>currency\<close>, the currency is USD and \<open>amount_usd\<close> is the amount; if it has neither
  \<open>created_at\<close> nor \<open>processed_at\<close>, the timestamp is the reading of the clock at the call.
  In the order loop of the sync, the transaction the adapter returns goes to the insert as
  it is: what the loop reports is decided by the insert alone, and \<open>validate\<close> takes no part.
\<close>

theorem shopify_normalize_missing_fields:
  "(\<not> dict_has data ''total_price'' \<and> \<not> dict_has data ''amount'' \<and>
    \<not> dict_has data ''currency'' \<and> \<not> dict_has data ''created_at'' \<and>
    \<not> dict_has data ''processed_at'' \<and> \<not> dict_has data ''line_items'' \<and>
    \<not> dict_has data ''customer'' \<longrightarrow>
      (\<exists>t. shopify_normalize rt (PDict data) = Inr t)) \<and>
   (shopify_normalize rt (PDict data) = Inr tx \<longrightarrow>
      (\<not> dict_has data ''total_price'' \<and> \<not> dict_has data ''amount'' \<longrightarrow>
         amount tx = Dec False 0 0) \<and>
      (\<not> dict_has data ''currency'' \<longrightarrow>
         currency tx = ''USD'' \<and> amount_usd tx = Some (amount tx)) \<and>
      (\<not> dict_has data ''created_at'' \<and> \<not> dict_has data ''processed_at'' \<longrightarrow>
         timestamp tx = Datetime (now rt))) \<and>
   (normalize ShopifyNormalizer (runtimes env (normalize_calls st)) raw = Inr tx' \<longrightarrow>
      sync_order env u raw (r, st) =
        (case insert_transaction env (st\<lparr>normalize_calls := Suc (normalize_calls st)\<rparr>) u tx' of
           (Some e, st2) \<Rightarrow> (Some e, r, st2)
         | (None, st2) \<Rightarrow> (None, r\<lparr>transactions_synced := transactions_synced r + 1\<rparr>, st2)))"
proof (intro conjI impI)
  assume "\<not> dict_has data ''total_price'' \<and> \<not> dict_has data ''amount'' \<and>
    \<not> dict_has data ''currency'' \<and> \<not> dict_has data ''created_at'' \<and>
    \<not> dict_has data ''processed_at'' \<and> \<not> dict_has data ''line_items'' \<and>
    \<not> dict_has data ''customer''"
  then show "\<exists>t. shopify_normalize rt (PDict data) = Inr t"
    using shopify_normalize_empty [of data rt] by (simp add: dict_has_def)
next
  assume "shopify_normalize rt (PDict data) = Inr tx"
    and "\<not> dict_has data ''total_price'' \<and> \<not> dict_has data ''amount''"
  then show "amount tx = Dec False 0 0" using shopify_normalize_no_amount by blast
next
  assume a: "shopify_normalize rt (PDict data) = Inr tx" "\<not> dict_has data ''currency''"
  from shopify_normalize_no_currency [OF a] show "currency tx = ''USD''" by simp
  from shopify_normalize_no_currency [OF a] show "amount_usd tx = Some (amount tx)" by simp
next
  assume "shopify_normalize rt (PDict data) = Inr tx"
    and "\<not> dict_has data ''created_at'' \<and> \<not> dict_has data ''processed_at''"
  then show "timestamp tx = Datetime (now rt)" using shopify_normalize_no_time by blast
next
  assume "normalize ShopifyNormalizer (runtimes env (normalize_calls st)) raw = Inr tx'"
  then show "sync_order env u raw (r, st) =
        (case insert_transaction env (st\<lparr>normalize_calls := Suc (normalize_calls st)\<rparr>) u tx' of
           (Some e, st2) \<Rightarrow> (Some e, r, st2)
         | (None, st2) \<Rightarrow> (None, r\<lparr>transactions_synced := transactions_synced r + 1\<rparr>, st2))"
    by (rule sync_order_unvalidated)
qed

theorem shopify_amount_fallback_counterexample:
  "shopify_normalize example_runtime amount_only_order =
     Inr \<lparr>tx_id = ''0b0e7c1a-5d1f-4c53-9d53-0a4f3a1f6c11'', platform = ''shopify'',
          platform_id = ''ord_7'', tx_type = ORDER, amount = Dec False 5 0,
          currency = ''USD'',
          timestamp = Datetime \<lparr>micros = unix_epoch_micros + 1000, tzoffset = None\<rparr>,
          amount_usd = Some (Dec False 5 0), sku_id = PNone, quantity = PNone,
          cost_per_unit = None, campaign_id = None, customer_id = None,
          metadata = [(''financial_status'', PStr ''paid''), (''order_number'', PNone),
                      (''line_items_count'', PInt 0)]\<rparr> \<and>
   \<not> dict_has [(''id'', PStr ''ord_7''), (''amount'', PStr ''5'')] ''total_price''"
  by (simp add: amount_only_order_normalized dict_has_def)

theorem shopify_normalize_missing_fields_witness:
  "(\<exists>t. shopify_normalize example_runtime (PDict []) = Inr t \<and> amount t = Dec False 0 0 \<and>
        currency t = ''USD'' \<and> amount_usd t = Some (Dec False 0 0) \<and>
        timestamp t = Datetime \<lparr>micros = unix_epoch_micros + 1000, tzoffset = None\<rparr>) \<and>
   (\<exists>t. shopify_normalize later_runtime (PDict []) = Inr t \<and>
        timestamp t = Datetime \<lparr>micros = unix_epoch_micros + 2000, tzoffset = None\<rparr>) \<and>
   sync_order example_sync_env ''7d444840-9dc0-11d1-b245-5ffdce74fad2'' negative_order
       (empty_report ''shopify'', empty_sync_state) =
     (Some (missing_attribute ''occurred_at''),
      empty_report ''shopify'',
      \<lparr>db_set = True, db_calls = 1, normalize_calls = 1, users = Map.empty, transactions = []\<rparr>)"
proof -
  let ?tx = "\<lparr>tx_id = ''0b0e7c1a-5d1f-4c53-9d53-0a4f3a1f6c11'', platform = ''shopify'',
          platform_id = ''ord_6'', tx_type = ORDER, amount = Dec True 5 0,
          currency = ''USD'',
          timestamp = Datetime \<lparr>micros = unix_epoch_micros + 1000, tzoffset = None\<rparr>,
          amount_usd = Some (Dec True 5 0), sku_id = PNone, quantity = PNone,
          cost_per_unit = None, campaign_id = None, customer_id = None,
          metadata = [(''financial_status'', PStr ''paid''), (''order_number'', PNone),
                      (''line_items_count'', PInt 0)]\<rparr>"
  have none: "\<not> dict_has [] k" for k by (simp add: dict_has_def)
  from shopify_normalize_missing_fields [where data = "[]" and rt = example_runtime]
  obtain t where t: "shopify_normalize example_runtime (PDict []) = Inr t"
    using none by blast
  from shopify_normalize_missing_fields [where data = "[]" and rt = example_runtime and tx = t] t
  have 1: "amount t = Dec False 0 0 \<and> currency t = ''USD'' \<and> amount_usd t = Some (amount t) \<and>
           timestamp t = Datetime (now example_runtime)"
    using none by blast
  from shopify_normalize_missing_fields [where data = "[]" and rt = later_runtime]
  obtain t' where t': "shopify_normalize later_runtime (PDict []) = Inr t'"
    using none by blast
  from shopify_normalize_missing_fields [where data = "[]" and rt = later_runtime and tx = t'] t'
  have 2: "timestamp t' = Datetime (now later_runtime)"
    using none by blast
  have n: "normalize ShopifyNormalizer
             (runtimes example_sync_env (normalize_calls empty_sync_state)) negative_order = Inr ?tx"
    by (simp add: example_sync_env_def negative_order_normalized)
  have s: "empty_sync_state\<lparr>normalize_calls := Suc (normalize_calls empty_sync_state)\<rparr>
             = empty_sync_state\<lparr>normalize_calls := Suc 0\<rparr>"
    by (simp add: empty_sync_state_def)
  from shopify_normalize_missing_fields
         [where env = example_sync_env and st = empty_sync_state and raw = negative_order
            and tx' = ?tx and u = "''7d444840-9dc0-11d1-b245-5ffdce74fad2''"
            and r = "empty_report ''shopify''", THEN conjunct2, THEN conjunct2, THEN mp, OF n]
  have 3: "sync_order example_sync_env ''7d444840-9dc0-11d1-b245-5ffdce74fad2'' negative_order
       (empty_report ''shopify'', empty_sync_state) =
     (Some (missing_attribute ''occurred_at''),
      empty_report ''shopify'',
      \<lparr>db_set = True, db_calls = 1, normalize_calls = 1, users = Map.empty, transactions = []\<rparr>)"
    by (simp only: s negative_order_inserted) simp
  from t 1 have a: "\<exists>t. shopify_normalize example_runtime (PDict []) = Inr t \<and>
        amount t = Dec False 0 0 \<and>
        currency t = ''USD'' \<and> amount_usd t = Some (Dec False 0 0) \<and>
        timestamp t = Datetime \<lparr>micros = unix_epoch_micros + 1000, tzoffset = None\<rparr>"
    by (simp add: example_runtime_def)
  from t' 2 have b: "\<exists>t. shopify_normalize later_runtime (PDict []) = Inr t \<and>
        timestamp t = Datetime \<lparr>micros = unix_epoch_micros + 2000, tzoffset = None\<rparr>"
    by (simp add: later_runtime_def)
  from a b 3 show ?thesis by blast
qed

section \<open>Properties of the sync orchestrator\<close>



























text \<open>
  When the router cannot be had, nothing is fetched: the report of a supported platform
  has zero counts and the one error.
\<close>

lemma sync_platform_router_failure:
  assumes "router_error env = Some e"
    and "py_lower pf \<in> {''shopify'', ''meta'', ''google''}"
  shows "sync_platform env st user_id pf (Some date_from) date_to =
           (Inr \<lparr>report_platform = py_lower pf, transactions_synced = 0, products_synced = 0,
                 campaigns_synced = 0, errors = [error_str e]\<rparr>, st)"
  using assms
  by (auto simp: sync_platform_def sync_shopify_def sync_meta_def sync_google_def
      sync_prologue_def add_error_def empty_report_def Let_def)



text \<open>
  C5. Called with \<open>date_to = date(1, 1, 1)\<close> and no \<open>date_from\<close>, \<open>sync_platform\<close> raises
  \<open>OverflowError\<close> and returns no report: the default window \<open>date_to - timedelta(days=30)\<close> is
  computed before the \<open>try\<close>, and lies before the first date.
\<close>

theorem sync_platform_window_overflow:
  "sync_platform example_sync_env empty_sync_state ''user@example.com'' ''shopify'' None (Some 1)
     = (Inl OverflowError, empty_sync_state)"
  by (simp add: sync_platform_def date_sub_days_def Let_def)

end
